theory Spec2Isabelle
  imports Complex_Main "HOL-Library.Sublist"
begin

section \<open>Text\<close>

text \<open>
  A Python \<open>str\<close> is modelled as a \<open>string\<close>: a list of 8-bit characters holding the
  UTF-8 encoding of the text, so the few characters outside ASCII in the literals of the
  source are written as their bytes. \<open>lower\<close> is \<open>str.lower()\<close> on ASCII text (it folds
  \<open>A\<close>..\<open>Z\<close> and leaves every other byte alone), \<open>str_in t s\<close> is the test \<open>t in s\<close>,
  and \<open>any_in ws s\<close> is \<open>any(w in s for w in ws)\<close>.
\<close>

definition lower_char :: "char \<Rightarrow> char" where
  "lower_char c =
     (let n = (of_char c :: nat) in if 65 \<le> n \<and> n \<le> 90 then char_of (n + 32) else c)"

definition lower :: "string \<Rightarrow> string" where
  "lower = map lower_char"

fun str_in :: "string \<Rightarrow> string \<Rightarrow> bool" where
  "str_in t [] = (t = [])"
| "str_in t (c # cs) = (prefix t (c # cs) \<or> str_in t cs)"

text \<open>\<open>contains_ci t s\<close>: the phrase \<open>t\<close> occurs in \<open>s\<close> when the case of letters is
  ignored. This is the reading of "case-insensitive substring" used in the statements;
  the code itself tests \<open>t in s.lower()\<close> for phrases \<open>t\<close> written in lower case.\<close>

definition contains_ci :: "string \<Rightarrow> string \<Rightarrow> bool" where
  "contains_ci t s = str_in (lower t) (lower s)"

definition any_in :: "string list \<Rightarrow> string \<Rightarrow> bool" where
  "any_in ws s = list_ex (\<lambda>w. str_in w s) ws"

fun join :: "string \<Rightarrow> string list \<Rightarrow> string" where
  "join sep [] = []"
| "join sep [x] = x"
| "join sep (x # y # ys) = x @ sep @ join sep (y # ys)"

fun str_nat :: "nat \<Rightarrow> string" where
  "str_nat n =
     (if n < 10 then [char_of (48 + n)] else str_nat (n div 10) @ [char_of (48 + n mod 10)])"

section \<open>Triage engine (app/triage/triage_engine.py)\<close>

text \<open>
  The two tables are dictionaries that the code only iterates, in insertion order, so
  they are association lists in the order of the source (no key occurs twice). Scores
  are Python floats in the source; here they are exact rationals, each weight being the
  decimal the source writes.
\<close>

definition SYMPTOM_SEVERITY_MAP :: "(string \<times> rat) list" where
  "SYMPTOM_SEVERITY_MAP =
     [(''chest pain'', 1),
      (''heart attack'', 1),
      (''cardiac arrest'', 1),
      (''not breathing'', 1),
      (''stopped breathing'', 1),
      (''choking'', 95 / 100),
      (''severe bleeding'', 95 / 100),
      (''unconscious'', 1),
      (''seizure'', 95 / 100),
      (''stroke'', 1),
      (''anaphylaxis'', 1),
      (''overdose'', 95 / 100),
      (''poisoning'', 95 / 100),
      (''severe burn'', 90 / 100),
      (''gunshot'', 1),
      (''stab'', 1),
      (''difficulty breathing'', 85 / 100),
      (''shortness of breath'', 80 / 100),
      (''high fever'', 70 / 100),
      (''severe headache'', 70 / 100),
      (''blurred vision'', 65 / 100),
      (''broken bone'', 75 / 100),
      (''fracture'', 75 / 100),
      (''deep cut'', 70 / 100),
      (''persistent vomiting'', 65 / 100),
      (''blood in stool'', 70 / 100),
      (''blood in urine'', 65 / 100),
      (''severe abdominal pain'', 75 / 100),
      (''allergic reaction'', 70 / 100),
      (''fainting'', 65 / 100),
      (''dehydration'', 60 / 100),
      (''dizziness'', 55 / 100),
      (''chest tightness'', 75 / 100),
      (''confusion'', 70 / 100),
      (''numbness'', 60 / 100),
      (''paralysis'', 85 / 100),
      (''fever'', 40 / 100),
      (''cough'', 30 / 100),
      (''headache'', 35 / 100),
      (''body pain'', 35 / 100),
      (''sore throat'', 30 / 100),
      (''ear pain'', 35 / 100),
      (''back pain'', 40 / 100),
      (''joint pain'', 35 / 100),
      (''rash'', 30 / 100),
      (''nausea'', 35 / 100),
      (''vomiting'', 45 / 100),
      (''diarrhea'', 35 / 100),
      (''stomach pain'', 40 / 100),
      (''toothache'', 30 / 100),
      (''cold'', 15 / 100),
      (''runny nose'', 10 / 100),
      (''mild headache'', 20 / 100),
      (''fatigue'', 20 / 100),
      (''insomnia'', 15 / 100),
      (''anxiety'', 25 / 100),
      (''stress'', 20 / 100),
      (''itching'', 15 / 100),
      (''minor cut'', 10 / 100),
      (''bruise'', 10 / 100)]"

definition SYMPTOM_DEPARTMENT_MAP :: "(string \<times> string) list" where
  "SYMPTOM_DEPARTMENT_MAP =
     [(''chest pain'', ''Cardiology''),
      (''heart'', ''Cardiology''),
      (''cardiac'', ''Cardiology''),
      (''breathing'', ''Pulmonology''),
      (''cough'', ''Pulmonology''),
      (''asthma'', ''Pulmonology''),
      (''headache'', ''Neurology''),
      (''seizure'', ''Neurology''),
      (''stroke'', ''Neurology''),
      (''numbness'', ''Neurology''),
      (''confusion'', ''Neurology''),
      (''paralysis'', ''Neurology''),
      (''bone'', ''Orthopedics''),
      (''fracture'', ''Orthopedics''),
      (''joint'', ''Orthopedics''),
      (''back pain'', ''Orthopedics''),
      (''sprain'', ''Orthopedics''),
      (''child'', ''Pediatrics''),
      (''baby'', ''Pediatrics''),
      (''infant'', ''Pediatrics''),
      (''skin'', ''Dermatology''),
      (''rash'', ''Dermatology''),
      (''itching'', ''Dermatology''),
      (''acne'', ''Dermatology''),
      (''eye'', ''Ophthalmology''),
      (''vision'', ''Ophthalmology''),
      (''ear'', ''ENT''),
      (''nose'', ''ENT''),
      (''throat'', ''ENT''),
      (''sore throat'', ''ENT''),
      (''stomach'', ''Gastroenterology''),
      (''abdomen'', ''Gastroenterology''),
      (''digestive'', ''Gastroenterology''),
      (''anxiety'', ''Psychiatry''),
      (''depression'', ''Psychiatry''),
      (''mental'', ''Psychiatry''),
      (''suicidal'', ''Psychiatry''),
      (''pregnancy'', ''Gynecology''),
      (''menstrual'', ''Gynecology''),
      (''fever'', ''General Medicine''),
      (''cold'', ''General Medicine''),
      (''fatigue'', ''General Medicine'')]"

record triage_result =
  severity_score :: rat
  severity_level :: string
  recommended_department :: string
  detected_symptoms :: "string list"
  needs_immediate_attention :: bool
  needs_ambulance :: bool
  triage_notes :: string
  first_aid_tips :: "string list"

text \<open>\<open>round(x, n)\<close>: the nearest multiple of \<open>10^-n\<close>, a tie going to the even one.\<close>

definition round_half_even :: "rat \<Rightarrow> int" where
  "round_half_even x =
     (let f = \<lfloor>x\<rfloor>; d = x - of_int f
      in if d < 1 / 2 then f else if 1 / 2 < d then f + 1 else if even f then f else f + 1)"

definition py_round :: "rat \<Rightarrow> nat \<Rightarrow> rat" where
  "py_round x n = of_int (round_half_even (x * 10 ^ n)) / 10 ^ n"

text \<open>\<open>_detect_symptoms\<close>: the entries of the table found in the text, then
  \<open>detected.sort(key=lambda x: x[1], reverse=True)\<close>, a stable sort by descending
  weight.\<close>

definition detect_symptoms :: "string \<Rightarrow> (string \<times> rat) list" where
  "detect_symptoms text =
     sort_key (\<lambda>d. - snd d)
       (filter (\<lambda>(symptom, weight). str_in symptom text) SYMPTOM_SEVERITY_MAP)"

text \<open>\<open>_calculate_severity\<close>. The source also computes \<open>secondary_avg\<close>, the mean of the
  other weights (of a list that is not empty there), and never uses it.\<close>

definition calculate_severity :: "(string \<times> rat) list \<Rightarrow> rat" where
  "calculate_severity detected =
     (case detected of
        [] \<Rightarrow> 1 / 10
      | d # _ \<Rightarrow>
          (let max_severity = snd d
           in if 1 < length detected
              then (let compound_factor = min (15 / 100) (of_nat (length detected) * (3 / 100))
                    in min 1 (max_severity + compound_factor))
              else max_severity))"

fun determine_department_in :: "(string \<times> string) list \<Rightarrow> string \<Rightarrow> string" where
  "determine_department_in [] text = ''General Medicine''"
| "determine_department_in ((keyword, department) # rest) text =
     (if str_in keyword text then department else determine_department_in rest text)"

definition determine_department :: "string \<Rightarrow> string" where
  "determine_department text = determine_department_in SYMPTOM_DEPARTMENT_MAP text"

definition get_first_aid :: "(string \<times> rat) list \<Rightarrow> string \<Rightarrow> string list" where
  "get_first_aid symptoms severity =
     (let symptom_names = map fst symptoms;
          any_of = (\<lambda>names. list_ex (\<lambda>s. s \<in> set symptom_names) names);
          tips =
            (if severity = ''CRITICAL''
             then [[CHR 0xF0, CHR 0x9F, CHR 0x9A, CHR 0xA8] @ '' Call emergency services (108) IMMEDIATELY'',
                   ''Do NOT move the patient unless in immediate danger'',
                   ''Monitor consciousness and breathing'']
             else [])
            @ (if any_of [''chest pain'', ''heart attack'', ''cardiac arrest'']
               then [[CHR 0xF0, CHR 0x9F, CHR 0x92, CHR 0x8A] @ '' If patient has prescribed nitroglycerin, help them take it'',
                     ''Have the patient sit upright and stay calm'',
                     ''Loosen any tight clothing'',
                     ''If patient becomes unresponsive, begin CPR'']
               else [])
            @ (if any_of [''not breathing'', ''stopped breathing'', ''choking'']
               then [''Check airway for obstructions'',
                     ''If choking: perform Heimlich maneuver (abdominal thrusts)'',
                     ''If not breathing: begin rescue breathing / CPR'',
                     ''Tilt head back, lift chin to open airway'']
               else [])
            @ (if any_of [''severe bleeding'', ''deep cut'']
               then [''Apply direct pressure with clean cloth'',
                     ''Elevate the wound above heart level if possible'',
                     ''Do NOT remove embedded objects'',
                     ''Apply tourniquet only as last resort for life-threatening limb bleeding'']
               else [])
            @ (if any_of [''seizure'']
               then [''Clear area around patient of hard objects'',
                     ''Do NOT restrain or put anything in their mouth'',
                     ''Turn patient on their side after seizure stops'',
                     ''Time the seizure '' @ [CHR 0xE2, CHR 0x80, CHR 0x94] @ '' call 108 if it lasts over 5 minutes'']
               else [])
            @ (if any_of [''severe burn'']
               then [''Cool the burn under cool running water for 10+ minutes'',
                     ''Do NOT apply ice, butter, or ointments'',
                     ''Cover with clean, non-stick dressing'',
                     ''Remove jewelry near the burn before swelling starts'']
               else [])
            @ (if any_of [''fracture'', ''broken bone'']
               then [''Immobilize the injured area '' @ [CHR 0xE2, CHR 0x80, CHR 0x94] @ '' do not try to realign'',
                     ''Apply ice wrapped in cloth to reduce swelling'',
                     ''Splint the area if trained to do so'']
               else [])
            @ (if any_of [''high fever'', ''fever'']
               then [''Stay hydrated with plenty of fluids'',
                     ''Rest in a cool, comfortable environment'',
                     ''Use a damp cloth on forehead for comfort'']
               else [])
            @ (if any_of [''allergic reaction'', ''anaphylaxis'']
               then [''Use EpiPen if available and trained to do so'',
                     ''Help patient sit upright for easier breathing'',
                     ''Remove known allergen if identifiable'']
               else [])
      in if tips = []
         then [''Rest and stay hydrated'',
               ''Monitor symptoms and note any changes'',
               ''Seek medical attention if symptoms worsen'']
         else tips)"

definition generate_notes :: "(string \<times> rat) list \<Rightarrow> string \<Rightarrow> string \<Rightarrow> string" where
  "generate_notes symptoms severity department =
     (if symptoms = []
      then ''No specific symptoms detected. Recommended: '' @ department @ '' consultation.''
      else ''Triage Assessment: '' @ severity @ '' | ''
           @ ''Symptoms: '' @ join '', '' (map fst symptoms) @ '' | ''
           @ ''Recommended Dept: '' @ department @ '' | ''
           @ ''Symptom count: '' @ str_nat (length symptoms))"

definition assess :: "string \<Rightarrow> triage_result" where
  "assess message =
     (let msg_lower = lower message;
          detected = detect_symptoms msg_lower;
          score = calculate_severity detected;
          department = determine_department msg_lower;
          level = (if 8 / 10 \<le> score then ''CRITICAL''
                   else if 5 / 10 \<le> score then ''URGENT''
                   else ''NON_URGENT'');
          needs_immediate = (8 / 10 \<le> score);
          ambulance = (9 / 10 \<le> score);
          first_aid = get_first_aid detected level;
          notes = generate_notes detected level department
      in \<lparr> severity_score = py_round score 3,
           severity_level = level,
           recommended_department = department,
           detected_symptoms = map fst detected,
           needs_immediate_attention = needs_immediate,
           needs_ambulance = ambulance,
           triage_notes = notes,
           first_aid_tips = first_aid \<rparr>)"

section \<open>Slot locks (app/api/appointments.py)\<close>

text \<open>
  The module keeps one process-wide dictionary \<open>_slot_locks\<close> from a composite string key
  to the expiry of the lock. A \<open>datetime\<close> is modelled as an integer number of
  microseconds (the resolution of Python's \<open>datetime\<close>); the reading of the clock
  (\<open>datetime.utcnow()\<close>) is an argument of the operation, and the dictionary is passed in
  and returned. \<open>dt.isoformat()\<close> is a library function and is taken as the parameter
  \<open>isofmt\<close>. Both functions are synchronous and contain no suspension point, so one call
  is one atomic step of the event loop.
\<close>

type_synonym datetime = int

type_synonym slot_locks = "string \<rightharpoonup> datetime"

definition LOCK_DURATION_SECONDS :: int where
  "LOCK_DURATION_SECONDS = 120"

definition timedelta_seconds :: "int \<Rightarrow> int" where
  "timedelta_seconds s = s * 1000000"

definition get_lock_key :: "('dt \<Rightarrow> string) \<Rightarrow> string \<Rightarrow> 'dt \<Rightarrow> string" where
  "get_lock_key isofmt doctor_id dt = doctor_id @ '':'' @ isofmt dt"

definition acquire_lock ::
  "('dt \<Rightarrow> string) \<Rightarrow> datetime \<Rightarrow> string \<Rightarrow> 'dt \<Rightarrow> slot_locks \<Rightarrow> bool \<times> slot_locks" where
  "acquire_lock isofmt now doctor_id dt locks =
     (let key = get_lock_key isofmt doctor_id dt;
          locks1 = (case locks key of
                      Some expiry \<Rightarrow> if expiry < now then locks(key := None) else locks
                    | None \<Rightarrow> locks)
      in case locks1 key of
           Some _ \<Rightarrow> (False, locks1)
         | None \<Rightarrow> (True, locks1(key \<mapsto> now + timedelta_seconds LOCK_DURATION_SECONDS)))"

definition release_lock :: "('dt \<Rightarrow> string) \<Rightarrow> string \<Rightarrow> 'dt \<Rightarrow> slot_locks \<Rightarrow> slot_locks" where
  "release_lock isofmt doctor_id dt locks = locks(get_lock_key isofmt doctor_id dt := None)"

text \<open>
  A history of calls on the shared table: each acquire carries the clock reading it
  takes. \<open>run_ops\<close> threads the table through the calls and collects what each one
  returned (\<open>None\<close> for a release, which returns nothing).
\<close>

datatype 'dt lock_op = Acquire datetime string 'dt | Release string 'dt

fun op_key :: "('dt \<Rightarrow> string) \<Rightarrow> 'dt lock_op \<Rightarrow> string" where
  "op_key isofmt (Acquire now d s) = get_lock_key isofmt d s"
| "op_key isofmt (Release d s) = get_lock_key isofmt d s"

fun lock_step :: "('dt \<Rightarrow> string) \<Rightarrow> 'dt lock_op \<Rightarrow> slot_locks \<Rightarrow> bool option \<times> slot_locks" where
  "lock_step isofmt (Acquire now d s) locks =
     (let (r, locks') = acquire_lock isofmt now d s locks in (Some r, locks'))"
| "lock_step isofmt (Release d s) locks = (None, release_lock isofmt d s locks)"

fun run_ops :: "('dt \<Rightarrow> string) \<Rightarrow> 'dt lock_op list \<Rightarrow> slot_locks \<Rightarrow> bool option list \<times> slot_locks" where
  "run_ops isofmt [] locks = ([], locks)"
| "run_ops isofmt (x # xs) locks =
     (let (r, locks1) = lock_step isofmt x locks;
          (rs, locks2) = run_ops isofmt xs locks1
      in (r # rs, locks2))"

text \<open>An operation that may run while a lock on \<open>key\<close> with expiry \<open>expiry\<close> is held
  without ending it: anything on another key, or an acquire on \<open>key\<close> whose clock reading
  is not past the expiry.\<close>

fun during_lock :: "('dt \<Rightarrow> string) \<Rightarrow> string \<Rightarrow> datetime \<Rightarrow> 'dt lock_op \<Rightarrow> bool" where
  "during_lock isofmt key expiry (Acquire now d s) = (get_lock_key isofmt d s = key \<longrightarrow> now \<le> expiry)"
| "during_lock isofmt key expiry (Release d s) = (get_lock_key isofmt d s \<noteq> key)"

section \<open>Intent classifier (app/ai_engine/intent_classifier.py)\<close>

datatype IntentType =
  GENERAL_QUERY | APPOINTMENT_REQUEST | DOCTOR_INFO | SYMPTOM_REPORT | EMERGENCY
  | INSURANCE | COMPLAINT | GREETING | FAREWELL

datatype UrgencyLevel = NON_URGENT | URGENT | CRITICAL

text \<open>The value \<open>json.loads\<close> returns: \<open>None\<close>, a bool, a number, a \<open>str\<close>, a list or a
  \<open>dict\<close> (its items, looked up with \<open>map_of\<close>).\<close>

datatype json =
  JNull | JBool bool | JNum rat | JStr string | JArr "json list" | JObj "(string \<times> json) list"

record AIClassification =
  intent :: IntentType
  urgency :: UrgencyLevel
  department :: "string option"
  needs_ambulance :: bool
  confidence :: rat
  entities :: "(string \<times> json) list option"

text \<open>\<open>AIClassification(intent=i, confidence=c)\<close>: the other fields take the defaults of
  the schema.\<close>

definition classification_defaults :: "IntentType \<Rightarrow> rat \<Rightarrow> AIClassification" where
  "classification_defaults i c =
     \<lparr> intent = i, urgency = NON_URGENT, department = None, needs_ambulance = False,
       confidence = c, entities = None \<rparr>"

definition emergency_triggers :: "(string \<times> string) list" where
  "emergency_triggers =
     [(''chest pain'', ''cardiology''),
      (''heart attack'', ''cardiology''),
      (''can't breathe'', ''pulmonology''),
      (''cannot breathe'', ''pulmonology''),
      (''difficulty breathing'', ''pulmonology''),
      (''choking'', ''emergency''),
      (''severe bleeding'', ''emergency''),
      (''bleeding heavily'', ''emergency''),
      (''seizure'', ''neurology''),
      (''convulsion'', ''neurology''),
      (''unconscious'', ''emergency''),
      (''not conscious'', ''emergency''),
      (''passed out'', ''emergency''),
      (''stroke'', ''neurology''),
      (''slurred speech'', ''neurology''),
      (''face drooping'', ''neurology''),
      (''severe burn'', ''emergency''),
      (''poisoning'', ''emergency''),
      (''overdose'', ''emergency''),
      (''suicidal'', ''psychiatry''),
      (''suicide'', ''psychiatry''),
      (''anaphylaxis'', ''emergency''),
      (''allergic reaction severe'', ''emergency'')]"

text \<open>\<open>_check_emergency_rules\<close>: the loop over the triggers, in the order of the
  dictionary, returns at the first trigger found in the lower-cased message.\<close>

fun check_emergency_rules_in :: "(string \<times> string) list \<Rightarrow> string \<Rightarrow> AIClassification option" where
  "check_emergency_rules_in [] msg_lower = None"
| "check_emergency_rules_in ((trigger, dept) # rest) msg_lower =
     (if str_in trigger msg_lower
      then Some \<lparr> intent = EMERGENCY, urgency = CRITICAL, department = Some dept,
                  needs_ambulance = True, confidence = 1,
                  entities = Some [(''trigger'', JStr trigger)] \<rparr>
      else check_emergency_rules_in rest msg_lower)"

definition check_emergency_rules :: "string \<Rightarrow> AIClassification option" where
  "check_emergency_rules message = check_emergency_rules_in emergency_triggers (lower message)"

definition fallback_classification :: "string \<Rightarrow> AIClassification" where
  "fallback_classification message =
     (let msg_lower = lower message
      in if any_in [''hello'', ''hi'', ''hey'', ''good morning'', ''good evening''] msg_lower
         then classification_defaults GREETING (9 / 10)
         else if any_in [''bye'', ''goodbye'', ''thank'', ''thanks''] msg_lower
         then classification_defaults FAREWELL (9 / 10)
         else if any_in [''appointment'', ''book'', ''schedule'', ''slot'', ''reschedule'',
                         ''cancel appointment''] msg_lower
         then classification_defaults APPOINTMENT_REQUEST (7 / 10)
         else if any_in [''doctor'', ''dr.'', ''specialist'', ''surgeon''] msg_lower
         then classification_defaults DOCTOR_INFO (7 / 10)
         else if any_in [''insurance'', ''bill'', ''payment'', ''cost'', ''charge'', ''policy'']
                   msg_lower
         then classification_defaults INSURANCE (7 / 10)
         else if any_in [''complaint'', ''unhappy'', ''bad experience'', ''rude''] msg_lower
         then classification_defaults COMPLAINT (7 / 10)
         else if any_in [''pain'', ''fever'', ''headache'', ''cough'', ''vomit'', ''nausea'',
                         ''dizzy'', ''symptom'', ''sick'', ''ill'', ''hurts''] msg_lower
         then (classification_defaults SYMPTOM_REPORT (6 / 10)) \<lparr> urgency := URGENT \<rparr>
         else classification_defaults GENERAL_QUERY (5 / 10))"

text \<open>
  The exceptions the body of the \<open>try\<close> can raise, all of class \<open>Exception\<close>: a failure
  of the call to the text-generation client (an error or a timeout), a text that is not
  JSON, a JSON value other than an object (no \<open>.get\<close>), a string that is no member of
  the enumeration, and a field the schema rejects.
\<close>

datatype exn = LLMError | JSONDecodeError | AttributeError | ValueError | ValidationError

text \<open>What the awaited call \<open>llm_client.chat(...)\<close> did: it raised, it returned \<open>None\<close>, or
  it returned a text.\<close>

datatype llm_outcome = Raised | NoResponse | Response string

text \<open>
  Library behaviour the classifier relies on and the repository does not define:
  \<open>json.loads\<close> (\<open>None\<close> when it raises) and the validation the schema applies to the
  four fields that are not enumerations (\<open>None\<close> when it rejects the value).
\<close>

record pylib =
  json_loads :: "string \<Rightarrow> json option"
  validate_optional_str :: "json \<Rightarrow> string option option"
  validate_bool :: "json \<Rightarrow> bool option"
  validate_float :: "json \<Rightarrow> rat option"
  validate_optional_dict :: "json \<Rightarrow> (string \<times> json) list option option"

definition is_space :: "char \<Rightarrow> bool" where
  "is_space c = (c \<in> set [CHR 0x20, CHR 0x09, CHR 0x0A, CHR 0x0B, CHR 0x0C, CHR 0x0D,
                          CHR 0x1C, CHR 0x1D, CHR 0x1E, CHR 0x1F])"

definition strip :: "string \<Rightarrow> string" where
  "strip s = rev (dropWhile is_space (rev (dropWhile is_space s)))"

text \<open>\<open>split_first sep s\<close>: the parts of \<open>s\<close> before and after the leftmost occurrence of
  the separator (which is not empty), if there is one.\<close>

fun split_first :: "string \<Rightarrow> string \<Rightarrow> (string \<times> string) option" where
  "split_first sep [] = None"
| "split_first sep (c # cs) =
     (if prefix sep (c # cs) then Some ([], drop (length sep) (c # cs))
      else map_option (\<lambda>(a, b). (c # a, b)) (split_first sep cs))"

definition code_fence :: string where
  "code_fence = [CHR 0x60, CHR 0x60, CHR 0x60]"

text \<open>\<open>clean_text.split("\n", 1)[-1].rsplit(fence, 1)[0]\<close> when the text starts with the
  fence: what follows the first line break, up to the last fence in it (found as the
  first one of the reversed text, the fence reading the same both ways).\<close>

definition strip_code_fence :: "string \<Rightarrow> string" where
  "strip_code_fence clean_text =
     (if prefix code_fence clean_text
      then (let rest = (case split_first [CHR 0x0A] clean_text of
                          None \<Rightarrow> clean_text
                        | Some (a, b) \<Rightarrow> b)
            in case split_first code_fence (rev rest) of
                 None \<Rightarrow> rest
               | Some (a, b) \<Rightarrow> rev b)
      else clean_text)"

text \<open>\<open>result.get(key, default)\<close> on a dictionary.\<close>

definition dict_get :: "(string \<times> json) list \<Rightarrow> string \<Rightarrow> json \<Rightarrow> json" where
  "dict_get d k dflt = (case map_of d k of Some v \<Rightarrow> v | None \<Rightarrow> dflt)"

text \<open>\<open>IntentType(v)\<close> and \<open>UrgencyLevel(v)\<close>: the member whose value is \<open>v\<close>, or
  \<open>ValueError\<close>.\<close>

definition IntentType_of :: "json \<Rightarrow> exn + IntentType" where
  "IntentType_of v =
     (case v of
        JStr s \<Rightarrow>
          (if s = ''general_query'' then Inr GENERAL_QUERY
           else if s = ''appointment_request'' then Inr APPOINTMENT_REQUEST
           else if s = ''doctor_info'' then Inr DOCTOR_INFO
           else if s = ''symptom_report'' then Inr SYMPTOM_REPORT
           else if s = ''emergency'' then Inr EMERGENCY
           else if s = ''insurance'' then Inr INSURANCE
           else if s = ''complaint'' then Inr COMPLAINT
           else if s = ''greeting'' then Inr GREETING
           else if s = ''farewell'' then Inr FAREWELL
           else Inl ValueError)
      | _ \<Rightarrow> Inl ValueError)"

definition UrgencyLevel_of :: "json \<Rightarrow> exn + UrgencyLevel" where
  "UrgencyLevel_of v =
     (case v of
        JStr s \<Rightarrow>
          (if s = ''non_urgent'' then Inr NON_URGENT
           else if s = ''urgent'' then Inr URGENT
           else if s = ''critical'' then Inr CRITICAL
           else Inl ValueError)
      | _ \<Rightarrow> Inl ValueError)"

text \<open>The body of the \<open>try\<close> after a text came back: clean it, parse it, read the six
  keys and build the classification.\<close>

definition parse_classification :: "pylib \<Rightarrow> string \<Rightarrow> exn + AIClassification" where
  "parse_classification lib response_text =
     (let clean_text = strip_code_fence (strip response_text)
      in case json_loads lib clean_text of
           None \<Rightarrow> Inl JSONDecodeError
         | Some (JObj result) \<Rightarrow>
             (case IntentType_of (dict_get result ''intent'' (JStr ''general_query'')) of
                Inl e \<Rightarrow> Inl e
              | Inr i \<Rightarrow>
             (case UrgencyLevel_of (dict_get result ''urgency'' (JStr ''non_urgent'')) of
                Inl e \<Rightarrow> Inl e
              | Inr u \<Rightarrow>
             (case (validate_optional_str lib (dict_get result ''department'' JNull),
                    validate_bool lib (dict_get result ''needs_ambulance'' (JBool False)),
                    validate_float lib (dict_get result ''confidence'' (JNum (8 / 10))),
                    validate_optional_dict lib (dict_get result ''entities'' JNull)) of
                (Some dept, Some amb, Some conf, Some ents) \<Rightarrow>
                  Inr \<lparr> intent = i, urgency = u, department = dept, needs_ambulance = amb,
                        confidence = conf, entities = ents \<rparr>
              | _ \<Rightarrow> Inl ValidationError)))
         | Some _ \<Rightarrow> Inl AttributeError)"

definition llm_classification :: "pylib \<Rightarrow> llm_outcome \<Rightarrow> string \<Rightarrow> exn + AIClassification" where
  "llm_classification lib llm message =
     (case llm of
        Raised \<Rightarrow> Inl LLMError
      | NoResponse \<Rightarrow> Inr (fallback_classification message)
      | Response response_text \<Rightarrow> parse_classification lib response_text)"

text \<open>\<open>classify_intent\<close>: the rule first; then the \<open>try\<close> (\<open>llm_classification\<close>), whose
  every exception is caught by \<open>except Exception\<close> and answered with the fallback. The
  result is a sum so that a raise of the function would be a value \<open>Inl\<close>.\<close>

definition classify_intent :: "pylib \<Rightarrow> llm_outcome \<Rightarrow> string \<Rightarrow> exn + AIClassification" where
  "classify_intent lib llm message =
     (case check_emergency_rules message of
        Some emergency_result \<Rightarrow> Inr emergency_result
      | None \<Rightarrow>
          (case llm_classification lib llm message of
             Inl e \<Rightarrow> Inr (fallback_classification message)
           | Inr classification \<Rightarrow> Inr classification))"

text \<open>
  The ways the external step fails, as a predicate on what the library and the client
  did: the client raised (an error or a timeout) or returned nothing, the text is not
  JSON, the JSON value is not an object, the intent or the urgency is outside its
  enumeration, or the schema rejects one of the other four fields.
\<close>

definition llm_failure :: "pylib \<Rightarrow> llm_outcome \<Rightarrow> bool" where
  "llm_failure lib llm =
     (case llm of
        Raised \<Rightarrow> True
      | NoResponse \<Rightarrow> True
      | Response response_text \<Rightarrow>
          (case json_loads lib (strip_code_fence (strip response_text)) of
             None \<Rightarrow> True
           | Some (JObj result) \<Rightarrow>
               isl (IntentType_of (dict_get result ''intent'' (JStr ''general_query'')))
               \<or> isl (UrgencyLevel_of (dict_get result ''urgency'' (JStr ''non_urgent'')))
               \<or> validate_optional_str lib (dict_get result ''department'' JNull) = None
               \<or> validate_bool lib (dict_get result ''needs_ambulance'' (JBool False)) = None
               \<or> validate_float lib (dict_get result ''confidence'' (JNum (8 / 10))) = None
               \<or> validate_optional_dict lib (dict_get result ''entities'' JNull) = None
           | Some _ \<Rightarrow> True))"

text \<open>
  A concrete library for the evaluations below: it parses the two texts
  \<open>{"intent": "emergency"}\<close> and \<open>{}\<close> to the objects they denote and rejects any
  other text, and it validates the values of the exact type of each field.
\<close>

definition demo_response :: string where
  "demo_response = [CHR ''{'', CHR 0x22] @ ''intent'' @ [CHR 0x22, CHR '':'', CHR '' '', CHR 0x22]
                   @ ''emergency'' @ [CHR 0x22, CHR ''}'']"

definition demo_lib :: pylib where
  "demo_lib =
     \<lparr> json_loads = (\<lambda>s. if s = demo_response then Some (JObj [(''intent'', JStr ''emergency'')])
                          else if s = ''{}'' then Some (JObj [])
                          else None),
       validate_optional_str = (\<lambda>v. case v of JNull \<Rightarrow> Some None | JStr s \<Rightarrow> Some (Some s)
                                         | _ \<Rightarrow> None),
       validate_bool = (\<lambda>v. case v of JBool b \<Rightarrow> Some b | _ \<Rightarrow> None),
       validate_float = (\<lambda>v. case v of JNum x \<Rightarrow> Some x | _ \<Rightarrow> None),
       validate_optional_dict = (\<lambda>v. case v of JNull \<Rightarrow> Some None | JObj d \<Rightarrow> Some (Some d)
                                          | _ \<Rightarrow> None) \<rparr>"

section \<open>Guardrails (app/ai_engine/guardrails.py)\<close>

text \<open>
  The patterns of the module use a small part of Python's \<open>re\<close>: literal text, the
  classes \<open>\w\<close>, \<open>\d\<close> and \<open>.\<close> under a greedy repetition, alternation and sequence,
  all matched with \<open>re.IGNORECASE\<close>. On ASCII text \<open>\w\<close> is a letter, a digit or the
  underscore, and \<open>.\<close> is any character but the line feed.
\<close>

datatype char_class = Word | Digit | AnyChar

fun in_class :: "char_class \<Rightarrow> char \<Rightarrow> bool" where
  "in_class Word c =
     (let n = (of_char c :: nat)
      in (48 \<le> n \<and> n \<le> 57) \<or> (65 \<le> n \<and> n \<le> 90) \<or> (97 \<le> n \<and> n \<le> 122) \<or> n = 95)"
| "in_class Digit c = (let n = (of_char c :: nat) in 48 \<le> n \<and> n \<le> 57)"
| "in_class AnyChar c = (c \<noteq> CHR 0x0A)"

text \<open>\<open>Many cls lo hi\<close> is the class repeated at least \<open>lo\<close> and at most \<open>hi\<close> times
  (\<open>None\<close>: no bound), greedily: \<open>\w+\<close> is \<open>Many Word 1 None\<close> and \<open>.{0,20}\<close> is
  \<open>Many AnyChar 0 (Some 20)\<close>.\<close>

datatype regex = Lit string | Many char_class nat "nat option" | Alt regex regex | Seq regex regex

text \<open>
  \<open>rmatch r s\<close>: the ways \<open>r\<close> matches at the start of \<open>s\<close>, each given by the text left
  after the match, in the order in which the backtracking matcher tries them (a longer
  repetition before a shorter one, the left alternative before the right one). The head
  of the list is the match \<open>re\<close> reports at this position.
\<close>

fun rmatch :: "regex \<Rightarrow> string \<Rightarrow> string list" where
  "rmatch (Lit l) s = (if prefix (lower l) (lower s) then [drop (length l) s] else [])"
| "rmatch (Many cls lo hi) s =
     (let n = length (takeWhile (in_class cls) s);
          m = (case hi of None \<Rightarrow> n | Some h \<Rightarrow> min h n)
      in map (\<lambda>k. drop k s) (rev [lo ..< Suc m]))"
| "rmatch (Alt a b) s = rmatch a s @ rmatch b s"
| "rmatch (Seq a b) s = concat (map (rmatch b) (rmatch a s))"

text \<open>\<open>re.search(pattern, s, re.IGNORECASE)\<close> as a truth value: a match at some position.\<close>

fun re_search :: "regex \<Rightarrow> string \<Rightarrow> bool" where
  "re_search r [] = (rmatch r [] \<noteq> [])"
| "re_search r (c # cs) = (rmatch r (c # cs) \<noteq> [] \<or> re_search r cs)"

text \<open>
  \<open>re.sub(pattern, repl, s, flags=re.IGNORECASE)\<close>: scanning from the left, a match at the
  current position is replaced by \<open>repl\<close> and the scan goes on after it; where nothing
  matches, the character is copied. The counter is the number of characters of the
  current match still to be passed over. (The replacement texts of the module hold no
  backslash, so they are inserted as they are.)
\<close>

fun re_sub_from :: "regex \<Rightarrow> string \<Rightarrow> nat \<Rightarrow> string \<Rightarrow> string" where
  "re_sub_from r repl k [] = (if k = 0 \<and> rmatch r [] \<noteq> [] then repl else [])"
| "re_sub_from r repl (Suc k) (c # cs) = re_sub_from r repl k cs"
| "re_sub_from r repl 0 (c # cs) =
     (case rmatch r (c # cs) of
        [] \<Rightarrow> c # re_sub_from r repl 0 cs
      | rest # _ \<Rightarrow>
          (let n = length (c # cs) - length rest
           in if n = 0 then repl @ c # re_sub_from r repl 0 cs
              else repl @ re_sub_from r repl (n - 1) cs))"

definition re_sub :: "regex \<Rightarrow> string \<Rightarrow> string \<Rightarrow> string" where
  "re_sub r repl s = re_sub_from r repl 0 s"

definition DIAGNOSIS_PATTERNS :: "regex list" where
  "DIAGNOSIS_PATTERNS =
     [Seq (Lit ''you have '') (Many Word 1 None),
      Lit ''you are suffering from'',
      Lit ''diagnosed with'',
      Seq (Lit ''this is '')
        (Seq (Alt (Lit ''likely'') (Alt (Lit ''probably'') (Lit ''definitely'')))
          (Seq (Lit '' '') (Many Word 1 None))),
      Lit ''it sounds like you have'',
      Lit ''you might have'',
      Seq (Lit ''this could be '') (Seq (Many Word 1 None) (Lit '' disease''))]"

definition PRESCRIPTION_PATTERNS :: "regex list" where
  "PRESCRIPTION_PATTERNS =
     [Seq (Lit ''take '') (Seq (Many Digit 1 None) (Lit '' mg'')),
      Seq (Lit ''you should take '') (Seq (Many Word 1 None) (Lit '' medication'')),
      Lit ''prescribe'',
      Lit ''dosage'',
      Seq (Lit ''take '')
        (Alt (Lit ''aspirin'') (Alt (Lit ''ibuprofen'') (Alt (Lit ''paracetamol'')
          (Lit ''acetaminophen'')))),
      Seq (Lit ''medication for '') (Many Word 1 None),
      Lit ''i recommend taking'']"

definition UNSAFE_CLAIM_PATTERNS :: "regex list" where
  "UNSAFE_CLAIM_PATTERNS =
     [Seq (Lit ''don't worry'') (Seq (Many AnyChar 0 (Some 20)) (Lit ''not serious'')),
      Lit ''nothing to worry about'',
      Lit ''this is not an emergency'',
      Lit ''you don't need to see a doctor'',
      Lit ''no need for hospital'',
      Lit ''home remedy will cure'',
      Lit ''guaranteed to work'']"

definition MEDICAL_DISCLAIMER :: string where
  "MEDICAL_DISCLAIMER =
     ''\<newline>\<newline>'' @ [CHR 0xE2, CHR 0x9A, CHR 0x95] @ [CHR 0xEF, CHR 0xB8, CHR 0x8F]
     @ '' *Please note: I'm an AI hospital assistant and cannot provide medical diagnosis or prescriptions. For medical concerns, please consult with a healthcare professional or visit the hospital.*''"

definition EMERGENCY_DISCLAIMER :: string where
  "EMERGENCY_DISCLAIMER =
     ''\<newline>\<newline>'' @ [CHR 0xF0, CHR 0x9F, CHR 0x9A, CHR 0xA8]
     @ '' *If you are experiencing a medical emergency, please call emergency services (108) immediately or go to the nearest emergency room.*''"

text \<open>One of the three loops of \<open>check_guardrails\<close>: each pattern is searched in the
  response as it came in, and replaced in the text filtered so far.\<close>

fun apply_patterns :: "regex list \<Rightarrow> string \<Rightarrow> string \<Rightarrow> string \<times> bool \<Rightarrow> string \<times> bool" where
  "apply_patterns [] repl response st = st"
| "apply_patterns (pattern # rest) repl response (filtered, was_modified) =
     (if re_search pattern response
      then apply_patterns rest repl response (re_sub pattern repl filtered, True)
      else apply_patterns rest repl response (filtered, was_modified))"

definition filter_patterns :: "string \<Rightarrow> string \<times> bool" where
  "filter_patterns response =
     apply_patterns UNSAFE_CLAIM_PATTERNS ''[Please seek professional medical advice]'' response
       (apply_patterns PRESCRIPTION_PATTERNS
          ''[I cannot prescribe medications - please consult a doctor]'' response
          (apply_patterns DIAGNOSIS_PATTERNS
             ''[I cannot make diagnoses - please consult a doctor]'' response
             (response, False)))"

definition symptom_keywords :: "string list" where
  "symptom_keywords = [''pain'', ''fever'', ''bleeding'', ''symptom'', ''condition'', ''suffer'']"

definition check_guardrails :: "string \<Rightarrow> string \<times> bool" where
  "check_guardrails response =
     (let (filtered, was_modified) = filter_patterns response
      in if any_in symptom_keywords (lower response)
         then (if \<not> str_in MEDICAL_DISCLAIMER filtered
               then (filtered @ MEDICAL_DISCLAIMER, True)
               else (filtered, was_modified))
         else (filtered, was_modified))"

definition add_safety_disclaimer :: "string \<Rightarrow> bool \<Rightarrow> string" where
  "add_safety_disclaimer response is_emergency =
     (if is_emergency \<and> \<not> str_in EMERGENCY_DISCLAIMER response
      then response @ EMERGENCY_DISCLAIMER
      else response)"

text \<open>A pattern that cannot match across a line feed: no literal of it holds one (no
  class does).\<close>

fun no_newline :: "regex \<Rightarrow> bool" where
  "no_newline (Lit l) = (CHR 0x0A \<notin> set l)"
| "no_newline (Many cls lo hi) = True"
| "no_newline (Alt a b) = (no_newline a \<and> no_newline b)"
| "no_newline (Seq a b) = (no_newline a \<and> no_newline b)"

text \<open>The literal a pattern starts with (empty when it starts otherwise): a match of the
  pattern starts with this text, case ignored.\<close>

fun first_literal :: "regex \<Rightarrow> string" where
  "first_literal (Lit l) = l"
| "first_literal (Seq a b) = first_literal a"
| "first_literal (Many cls lo hi) = []"
| "first_literal (Alt a b) = []"

section \<open>Emergency orchestrator (app/triage/emergency_orchestrator.py)\<close>

text \<open>The fields of the conversation context that the orchestrator reads (the message
  history, the intent, the pending action, the emergency flag and the two timestamps of
  the source class are not used here).\<close>

record ConversationContext =
  session_id :: string
  patient_name :: "string option"
  patient_phone :: "string option"
  patient_id :: "string option"

record EmergencyAction =
  is_emergency :: bool
  triage :: triage_result
  dispatch_ambulance :: bool
  alert_staff :: bool
  escalation_message :: string
  patient_guidance :: string
  emergency_case_id :: "string option"

text \<open>The record handed to the storage collaborator (\<open>db.emergencycase.create\<close>).\<close>

record case_data =
  patientId :: "string option"
  severity :: string
  symptoms :: string
  contactNumber :: string
  case_notes :: string

text \<open>\<open>v or d\<close> for an optional string: the default when the value is \<open>None\<close> or
  empty.\<close>

definition or_else :: "string option \<Rightarrow> string \<Rightarrow> string" where
  "or_else v d = (case v of None \<Rightarrow> d | Some s \<Rightarrow> if s = [] then d else s)"

text \<open>The data of the case. \<open>message[:500]\<close> counts characters in the source and bytes
  here; the two agree on ASCII messages.\<close>

definition case_payload :: "triage_result \<Rightarrow> ConversationContext \<Rightarrow> string \<Rightarrow> case_data" where
  "case_payload tr context message =
     (let joined = join '', '' (detected_symptoms tr)
      in \<lparr> patientId = patient_id context,
           severity = (if severity_level tr \<in> set [''CRITICAL'', ''URGENT'', ''NON_URGENT'']
                       then severity_level tr else ''URGENT''),
           symptoms = (if joined = [] then take 500 message else joined),
           contactNumber = or_else (patient_phone context) ''UNKNOWN'',
           case_notes = triage_notes tr \<rparr>)"

text \<open>
  Exceptions. A computation that may raise returns a sum: \<open>Inl e\<close> is the exception
  \<open>e\<close> (of class \<open>Exception\<close>) leaving it, \<open>Inr v\<close> its value. \<open>then_do\<close> runs a
  second step on the value of the first and lets an exception of the first pass through
  (statements in sequence, an awaited call inside an expression); \<open>try_except\<close> is
  \<open>try: body except Exception as e: handler(e)\<close>.
\<close>

definition then_do :: "'e + 'a \<Rightarrow> ('a \<Rightarrow> 'e + 'b) \<Rightarrow> 'e + 'b" where
  "then_do step rest = (case step of Inl e \<Rightarrow> Inl e | Inr v \<Rightarrow> rest v)"

definition try_except :: "'e + 'a \<Rightarrow> ('e \<Rightarrow> 'e + 'a) \<Rightarrow> 'e + 'a" where
  "try_except body handler = (case body of Inl e \<Rightarrow> handler e | Inr v \<Rightarrow> Inr v)"

text \<open>
  \<open>log_action\<close> (app/utils/audit_logger.py): the write to the audit table, whose outcome
  is \<open>audit_write\<close>, stands in a \<open>try\<close> whose handler logs the failure and goes on, so
  the call returns \<open>None\<close> either way.
\<close>

definition log_action :: "'e + unit \<Rightarrow> 'e + unit" where
  "log_action audit_write = try_except audit_write (\<lambda>e. Inr ())"

text \<open>
  The body of the \<open>try\<close> in \<open>_create_emergency_case\<close>: the storage collaborator
  \<open>db_create\<close> (\<open>db.emergencycase.create\<close>) is called with the case data and returns the
  identifier of the new case or raises; then the audit call; then the identifier is
  returned. Nothing here catches an exception of the storage call.
\<close>

definition create_emergency_case_body ::
  "(case_data \<Rightarrow> 'e + string) \<Rightarrow> 'e + unit \<Rightarrow> triage_result \<Rightarrow> ConversationContext \<Rightarrow> string
     \<Rightarrow> 'e + string option" where
  "create_emergency_case_body db_create audit_write tr context message =
     then_do (db_create (case_payload tr context message))
       (\<lambda>case_id. then_do (log_action audit_write) (\<lambda>_. Inr (Some case_id)))"

text \<open>\<open>_create_emergency_case\<close>: the body under \<open>except Exception\<close>, whose handler logs
  the failure and returns \<open>None\<close>.\<close>

definition create_emergency_case ::
  "(case_data \<Rightarrow> 'e + string) \<Rightarrow> 'e + unit \<Rightarrow> triage_result \<Rightarrow> ConversationContext \<Rightarrow> string
     \<Rightarrow> 'e + string option" where
  "create_emergency_case db_create audit_write tr context message =
     try_except (create_emergency_case_body db_create audit_write tr context message)
       (\<lambda>e. Inr None)"

definition build_patient_guidance :: "triage_result \<Rightarrow> string" where
  "build_patient_guidance tr =
     concat
       ((if severity_level tr = ''CRITICAL''
         then [[CHR 0xF0, CHR 0x9F, CHR 0x9A, CHR 0xA8] @ '' **EMERGENCY ''
               @ [CHR 0xE2, CHR 0x80, CHR 0x94]
               @ '' IMMEDIATE ACTION REQUIRED**\<newline>\<newline>**Call 108 (Emergency Services) NOW.**\<newline>'']
         else if severity_level tr = ''URGENT''
         then [[CHR 0xE2, CHR 0x9A, CHR 0xA0] @ [CHR 0xEF, CHR 0xB8, CHR 0x8F] @ '' **URGENT ''
               @ [CHR 0xE2, CHR 0x80, CHR 0x94] @ '' Please seek medical attention soon.**\<newline>'']
         else [])
        @ [''**Severity Assessment:** '' @ severity_level tr
           @ ''\<newline>**Recommended Department:** '' @ recommended_department tr @ ''\<newline>'']
        @ (if triage_result.needs_ambulance tr
           then [''\<newline>'' @ [CHR 0xF0, CHR 0x9F, CHR 0x9A, CHR 0x91]
                 @ '' **Ambulance recommended.** Our team has been alerted. Please share your location.\<newline>'']
           else [])
        @ (if first_aid_tips tr \<noteq> []
           then ''\<newline>**While waiting for help:**\<newline>''
                # map (\<lambda>tip. [CHR 0xE2, CHR 0x80, CHR 0xA2] @ '' '' @ tip @ ''\<newline>'')
                    (take 5 (first_aid_tips tr))
           else [])
        @ [''\<newline>'' @ [CHR 0xE2, CHR 0x9A, CHR 0x95] @ [CHR 0xEF, CHR 0xB8, CHR 0x8F]
           @ '' *This is an automated triage assessment. A healthcare professional will confirm the evaluation.*''])"

text \<open>\<open>_build_escalation_message\<close>. The rendering of the score (\<open>str\<close> of a float) and
  the current time in ISO format come from the library and the clock; they are the
  parameters \<open>repr_float\<close> and \<open>now_iso\<close>.\<close>

definition build_escalation_message ::
  "(rat \<Rightarrow> string) \<Rightarrow> string \<Rightarrow> triage_result \<Rightarrow> ConversationContext \<Rightarrow> string option \<Rightarrow> string" where
  "build_escalation_message repr_float now_iso tr context emergency_id =
     [CHR 0xF0, CHR 0x9F, CHR 0x9A, CHR 0xA8] @ '' EMERGENCY ALERT ''
     @ [CHR 0xE2, CHR 0x80, CHR 0x94] @ '' Case #'' @ or_else emergency_id ''PENDING''
     @ ''\<newline>Severity: '' @ severity_level tr
     @ '' (Score: '' @ repr_float (severity_score tr)
     @ '')\<newline>Symptoms: '' @ join '', '' (detected_symptoms tr)
     @ ''\<newline>Department: '' @ recommended_department tr
     @ ''\<newline>Patient: '' @ or_else (patient_name context) ''Unknown''
     @ ''\<newline>Phone: '' @ or_else (patient_phone context) ''Unknown''
     @ ''\<newline>Session: '' @ session_id context
     @ ''\<newline>Ambulance Required: '' @ (if triage_result.needs_ambulance tr then ''YES'' else ''No'')
     @ ''\<newline>Time: '' @ now_iso"

text \<open>
  \<open>evaluate_and_respond\<close> has no \<open>try\<close> of its own: an exception leaving
  \<open>_create_emergency_case\<close> would leave it too (\<open>then_do\<close>). The other steps (triage and
  the two texts) are pure.
\<close>

definition evaluate_and_respond ::
  "(case_data \<Rightarrow> 'e + string) \<Rightarrow> 'e + unit \<Rightarrow> (rat \<Rightarrow> string) \<Rightarrow> string
     \<Rightarrow> string \<Rightarrow> ConversationContext \<Rightarrow> 'e + EmergencyAction" where
  "evaluate_and_respond db_create audit_write repr_float now_iso message context =
     (let tr = assess message;
          emergency = (severity_level tr = ''CRITICAL'');
          is_urgent = (severity_level tr = ''URGENT'');
          guidance = build_patient_guidance tr
      in then_do (if emergency \<or> is_urgent
                  then create_emergency_case db_create audit_write tr context message
                  else Inr None)
           (\<lambda>emergency_id.
              (let escalation =
                     (if emergency
                      then build_escalation_message repr_float now_iso tr context emergency_id
                      else [])
               in Inr \<lparr> is_emergency = emergency,
                         triage = tr,
                         dispatch_ambulance = triage_result.needs_ambulance tr,
                         alert_staff = emergency,
                         escalation_message = escalation,
                         patient_guidance = guidance,
                         emergency_case_id = emergency_id \<rparr>)))"

section \<open>Triage engine theorems\<close>

lemma weights_table:
  "list_all (\<lambda>(s, w). of_int \<lfloor>w * 100\<rfloor> = w * 100 \<and> 1 / 10 \<le> w \<and> w \<le> 1) SYMPTOM_SEVERITY_MAP"
  by (simp add: SYMPTOM_SEVERITY_MAP_def)

lemma keys_lower_table:
  "list_all (\<lambda>(s, w). lower s = s) SYMPTOM_SEVERITY_MAP"
  by (simp add: SYMPTOM_SEVERITY_MAP_def lower_def lower_char_def)

lemma hd_sort_desc:
  fixes xs :: "('a \<times> rat) list"
  assumes "xs \<noteq> []"
  shows "snd (hd (sort_key (\<lambda>d. - snd d) xs)) = Max (snd ` set xs)"
proof -
  let ?ys = "sort_key (\<lambda>d. - snd d) xs"
  have ne: "?ys \<noteq> []" using assms by (metis length_0_conv length_sort)
  then obtain y ys where ys: "?ys = y # ys" by (cases ?ys) auto
  have "sorted (map (\<lambda>d. - snd d) ?ys)" by (rule sorted_sort_key)
  with ys have le: "\<forall>z \<in> set ys. snd z \<le> snd y" by auto
  have set: "set xs = set (y # ys)" using ys by (metis set_sort)
  have "Max (snd ` set xs) = snd y"
    unfolding set by (rule Max_eqI) (use le in auto)
  with ys show ?thesis by simp
qed

lemma detected_weights:
  assumes "d \<in> set (detect_symptoms text)"
  shows "of_int \<lfloor>snd d * 100\<rfloor> = snd d * 100 \<and> 1 / 10 \<le> snd d \<and> snd d \<le> 1"
proof -
  from assms have "d \<in> set SYMPTOM_SEVERITY_MAP" by (auto simp: detect_symptoms_def)
  with weights_table show ?thesis by (auto simp: list_all_iff)
qed

lemma round_half_even_of_int: "round_half_even (of_int k) = k"
  by (simp add: round_half_even_def)

lemma py_round_grid:
  assumes "of_int k = x * 100"
  shows "py_round x 3 = x"
proof -
  have "x * 10 ^ 3 = of_int (k * 10)" using assms by simp
  then have "round_half_even (x * 10 ^ 3) = k * 10" by (simp only: round_half_even_of_int)
  then show ?thesis using assms by (simp add: py_round_def)
qed

lemma calculate_severity_grid:
  assumes "\<forall>d \<in> set ds. of_int \<lfloor>snd d * 100\<rfloor> = snd d * 100 \<and> 1 / 10 \<le> snd d \<and> snd d \<le> 1"
  shows "(\<exists>k. of_int k = calculate_severity ds * 100) \<and> 0 \<le> calculate_severity ds \<and> calculate_severity ds \<le> 1"
proof (cases ds)
  case Nil
  have "of_int 10 = (1 / 10 :: rat) * 100" by simp
  with Nil show ?thesis unfolding calculate_severity_def by (auto intro: exI [of _ 10])
next
  case (Cons d rest)
  with assms have d: "of_int \<lfloor>snd d * 100\<rfloor> = snd d * 100" "1 / 10 \<le> snd d" "snd d \<le> 1" by auto
  show ?thesis
  proof (cases "1 < length ds")
    case False
    with Cons d show ?thesis unfolding calculate_severity_def by (auto simp: Let_def)
  next
    case True
    define b :: rat where "b = min (15 / 100) (of_nat (length ds) * (3 / 100))"
    have cs: "calculate_severity ds = min 1 (snd d + b)"
      using Cons True by (simp add: calculate_severity_def Let_def b_def)
    have bk: "\<exists>k. of_int k = b * 100"
    proof (cases "(15 / 100 :: rat) \<le> of_nat (length ds) * (3 / 100)")
      case True
      then have "b = 15 / 100" by (simp add: b_def)
      then have "of_int 15 = b * 100" by simp
      then show ?thesis ..
    next
      case False
      then have "b = of_nat (length ds) * (3 / 100)" by (simp add: b_def)
      then have "of_int (int (length ds) * 3) = b * 100" by simp
      then show ?thesis ..
    qed
    then obtain kb where kb: "of_int kb = b * 100" ..
    have b0: "0 \<le> b" by (simp add: b_def)
    have sk: "of_int (\<lfloor>snd d * 100\<rfloor> + kb) = (snd d + b) * 100"
      using d(1) kb by (simp add: algebra_simps)
    have "\<exists>k. of_int k = min 1 (snd d + b) * 100"
    proof (cases "1 \<le> snd d + b")
      case True
      then have "of_int 100 = min 1 (snd d + b) * 100" by simp
      then show ?thesis ..
    next
      case False
      then have "min 1 (snd d + b) = snd d + b" by simp
      with sk show ?thesis by metis
    qed
    moreover have "0 \<le> min 1 (snd d + b)" using d(2) b0 by simp
    moreover have "min 1 (snd d + b) \<le> 1" by simp
    ultimately show ?thesis unfolding cs by blast
  qed
qed

lemma assess_score:
  "severity_score (assess text) = calculate_severity (detect_symptoms (lower text))"
proof -
  obtain k where "of_int k = calculate_severity (detect_symptoms (lower text)) * 100"
    using calculate_severity_grid [of "detect_symptoms (lower text)"] detected_weights by blast
  then show ?thesis by (simp add: assess_def Let_def py_round_grid)
qed

lemma assess_score_range:
  "0 \<le> severity_score (assess text) \<and> severity_score (assess text) \<le> 1"
  unfolding assess_score
  using calculate_severity_grid [of "detect_symptoms (lower text)"] detected_weights by blast

text \<open>
  Claim C3 (score range and thresholds). For every text the score that \<open>assess\<close> returns
  lies in \<open>[0, 1]\<close>; the level is \<open>CRITICAL\<close> exactly when the score is at least 0.8,
  \<open>URGENT\<close> exactly when it is at least 0.5 and below 0.8, and \<open>NON_URGENT\<close> exactly
  when it is below 0.5; \<open>needs_immediate_attention\<close> holds exactly when the score is at
  least 0.8 and \<open>needs_ambulance\<close> exactly when it is at least 0.9. The code compares the
  score before \<open>round(score, 3)\<close> and returns the rounded one; every score is a whole
  number of hundredths, which the rounding leaves as it is.
\<close>

theorem assess_thresholds:
  "0 \<le> severity_score (assess text) \<and> severity_score (assess text) \<le> 1
   \<and> (severity_level (assess text) = ''CRITICAL'' \<longleftrightarrow> 8 / 10 \<le> severity_score (assess text))
   \<and> (severity_level (assess text) = ''URGENT'' \<longleftrightarrow>
        5 / 10 \<le> severity_score (assess text) \<and> severity_score (assess text) < 8 / 10)
   \<and> (severity_level (assess text) = ''NON_URGENT'' \<longleftrightarrow> severity_score (assess text) < 5 / 10)
   \<and> (needs_immediate_attention (assess text) \<longleftrightarrow> 8 / 10 \<le> severity_score (assess text))
   \<and> (triage_result.needs_ambulance (assess text) \<longleftrightarrow> 9 / 10 \<le> severity_score (assess text))"
proof -
  have lv: "severity_level (assess text) =
      (if 8 / 10 \<le> severity_score (assess text) then ''CRITICAL''
       else if 5 / 10 \<le> severity_score (assess text) then ''URGENT'' else ''NON_URGENT'')"
    unfolding assess_score by (simp add: assess_def Let_def)
  have im: "needs_immediate_attention (assess text) = (8 / 10 \<le> severity_score (assess text))"
    unfolding assess_score by (simp add: assess_def Let_def)
  have am: "triage_result.needs_ambulance (assess text) = (9 / 10 \<le> severity_score (assess text))"
    unfolding assess_score by (simp add: assess_def Let_def)
  show ?thesis using assess_score_range [of "text"] unfolding lv im am by simp
qed

theorem assess_thresholds_witness:
  "severity_level (assess ''I feel a shortness of breath'') = ''CRITICAL''
   \<and> needs_immediate_attention (assess ''I feel a shortness of breath'')
   \<and> \<not> triage_result.needs_ambulance (assess ''I feel a shortness of breath'')"
proof -
  have s: "severity_score (assess ''I feel a shortness of breath'') = 8 / 10"
    by code_simp
  from assess_thresholds [of "''I feel a shortness of breath''"] show ?thesis
    unfolding s by simp
qed

lemma matched_eq:
  "filter (\<lambda>(symptom, weight). contains_ci symptom text) SYMPTOM_SEVERITY_MAP
   = filter (\<lambda>(symptom, weight). str_in symptom (lower text)) SYMPTOM_SEVERITY_MAP"
  by (rule filter_cong [OF refl]) (use keys_lower_table in \<open>auto simp: list_all_iff contains_ci_def\<close>)

text \<open>
  Claim C4 (score formula). Let \<open>matched\<close> be the entries of the symptom-weight table whose
  symptom occurs in the text, case ignored. The score of \<open>assess\<close> is 0.1 when \<open>matched\<close>
  is empty; otherwise it is the largest matched weight plus, when more than one entry
  matched, the bonus \<open>min(0.15, 0.03 * count)\<close>, the total capped at 1.
\<close>

theorem severity_score_formula:
  "severity_score (assess text) =
     (let matched = filter (\<lambda>(symptom, weight). contains_ci symptom text) SYMPTOM_SEVERITY_MAP
      in if matched = [] then 1 / 10
         else min 1 (Max (snd ` set matched)
                + (if 1 < length matched then min (15 / 100) (3 / 100 * of_nat (length matched))
                   else 0)))"
proof -
  define matched where
    "matched = filter (\<lambda>(symptom, weight). str_in symptom (lower text)) SYMPTOM_SEVERITY_MAP"
  have det: "detect_symptoms (lower text) = sort_key (\<lambda>d. - snd d) matched"
    by (simp add: detect_symptoms_def matched_def)
  have goal: "calculate_severity (sort_key (\<lambda>d. - snd d) matched) =
      (if matched = [] then 1 / 10
       else min 1 (Max (snd ` set matched)
              + (if 1 < length matched then min (15 / 100) (3 / 100 * of_nat (length matched))
                 else 0)))"
  proof (cases "matched = []")
    case True
    then show ?thesis by (simp add: calculate_severity_def)
  next
    case False
    let ?ys = "sort_key (\<lambda>d. - snd d) matched"
    have len: "length ?ys = length matched" by simp
    from False have "?ys \<noteq> []" by (metis len length_0_conv)
    then obtain y ys where ys: "?ys = y # ys" by (cases ?ys) auto
    have mx: "snd y = Max (snd ` set matched)"
      using hd_sort_desc [OF False] ys by simp
    have "y \<in> set (detect_symptoms (lower text))" using ys det by simp
    then have le1: "snd y \<le> 1" using detected_weights by blast
    have cs: "calculate_severity ?ys =
        (if 1 < length matched
         then min 1 (snd y + min (15 / 100) (of_nat (length matched) * (3 / 100)))
         else snd y)"
      unfolding calculate_severity_def ys [symmetric] len
      by (simp add: ys Let_def)
    show ?thesis
      unfolding cs using False le1 mx by (simp add: mult.commute)
  qed
  show ?thesis
    unfolding assess_score matched_eq det Let_def matched_def [symmetric] by (rule goal)
qed

theorem severity_score_formula_witness:
  "severity_score (assess ''Headache, body pain, ear pain, joint pain, NAUSEA and diarrhea'')
     = 1 / 2"
proof -
  have r: "(let matched = filter (\<lambda>(symptom, weight). contains_ci symptom
                ''Headache, body pain, ear pain, joint pain, NAUSEA and diarrhea'')
              SYMPTOM_SEVERITY_MAP
      in if matched = [] then 1 / 10
         else min 1 (Max (snd ` set matched)
                + (if 1 < length matched then min (15 / 100) (3 / 100 * of_nat (length matched))
                   else 0))) = (1 / 2 :: rat)"
    by code_simp
  from severity_score_formula
    [of "''Headache, body pain, ear pain, joint pain, NAUSEA and diarrhea''"]
  show ?thesis unfolding r .
qed

section \<open>Guardrails theorems\<close>

lemma lower_char_newline: "lower_char c = CHR 0x0A \<longleftrightarrow> c = CHR 0x0A"
proof
  assume a: "lower_char c = CHR 0x0A"
  show "c = CHR 0x0A"
  proof (cases "65 \<le> (of_char c :: nat) \<and> (of_char c :: nat) \<le> 90")
    case True
    then have "lower_char c = char_of ((of_char c :: nat) + 32)"
      by (simp add: lower_char_def Let_def)
    with a have "(of_char (char_of ((of_char c :: nat) + 32)) :: nat) = of_char (CHR 0x0A)"
      by simp
    with True show ?thesis by (simp add: of_char_of)   
  next
    case False
    with a show ?thesis by (simp add: lower_char_def Let_def)
  qed
next
  assume "c = CHR 0x0A"
  then show "lower_char c = CHR 0x0A" by (simp add: lower_char_def)
qed

lemma lower_append: "lower (a @ b) = lower a @ lower b"
  by (simp add: lower_def)

lemma newline_in_lower: "CHR 0x0A \<in> set (lower l) \<longleftrightarrow> CHR 0x0A \<in> set l"
  by (auto simp: lower_def image_iff) (metis lower_char_newline)+

lemma prefix_before: 
  assumes "c \<notin> set l"
  shows "prefix l (a @ c # b) \<longleftrightarrow> prefix l a"
proof
  assume p: "prefix l (a @ c # b)"
  show "prefix l a"
  proof (rule ccontr)
    assume n: "\<not> prefix l a"
    from p have "prefix l a \<or> (\<exists>us. l = a @ us \<and> prefix us (c # b))"
      by (auto simp: prefix_append)
    with n obtain us where us: "l = a @ us" "prefix us (c # b)" by blast
    with n have "us \<noteq> []" by auto
    with us(2) have "c \<in> set us" by (cases us) auto
    with us(1) assms show False by simp
  qed
next
  assume "prefix l a" then show "prefix l (a @ c # b)" by (rule prefix_prefix)
qed

lemma rmatch_newline:
  assumes "no_newline r"
  shows "rmatch r (s1 @ CHR 0x0A # s2) = map (\<lambda>rest. rest @ CHR 0x0A # s2) (rmatch r s1)"
  using assms
proof (induction r arbitrary: s1)
  case (Lit l)
  then have nl: "CHR 0x0A \<notin> set (lower l)" by (simp add: newline_in_lower)
  have "prefix (lower l) (lower (s1 @ CHR 0x0A # s2)) \<longleftrightarrow> prefix (lower l) (lower s1)"
    using prefix_before [OF nl, of "lower s1" "lower s2"]
    by (simp add: lower_append) (simp add: lower_def lower_char_def)
  moreover have "prefix (lower l) (lower s1) \<Longrightarrow> length l \<le> length s1"
    by (metis length_map lower_def prefix_length_le)
  ultimately show ?case by auto
next
  case (Many cls lo hi)
  have nc: "\<not> in_class cls (CHR 0x0A)" by (cases cls) simp_all
  have tw: "takeWhile (in_class cls) (s1 @ CHR 0x0A # s2) = takeWhile (in_class cls) s1"
    using nc by (induction s1) auto
  define m where "m = (case hi of None \<Rightarrow> length (takeWhile (in_class cls) s1)
                       | Some h \<Rightarrow> min h (length (takeWhile (in_class cls) s1)))"
  have "m \<le> length (takeWhile (in_class cls) s1)" by (simp add: m_def split: option.splits)
  then have m: "m \<le> length s1" using length_takeWhile_le [of "in_class cls" s1] by linarith
  have "\<forall>k \<in> set (rev [lo ..< Suc m]). drop k (s1 @ CHR 0x0A # s2) = drop k s1 @ CHR 0x0A # s2"
    using m by auto
  then have "map (\<lambda>k. drop k (s1 @ CHR 0x0A # s2)) (rev [lo ..< Suc m])
           = map (\<lambda>k. drop k s1 @ CHR 0x0A # s2) (rev [lo ..< Suc m])"
    by (intro map_cong) auto
  then show ?case
    unfolding rmatch.simps tw Let_def m_def [symmetric] by (simp add: comp_def)
next
  case (Alt a b)
  then show ?case by simp
next
  case (Seq a b)
  then show ?case by (simp add: map_concat comp_def)
qed

lemma rmatch_length:
  "rest \<in> set (rmatch r s) \<Longrightarrow> length rest \<le> length s"
proof (induction r arbitrary: s rest)
  case (Seq a b)
  then obtain mid where "mid \<in> set (rmatch a s)" "rest \<in> set (rmatch b mid)" by auto
  with Seq.IH show ?case by (meson le_trans)
next
  case (Many cls lo hi)
  then show ?case by (auto simp: Let_def)
qed (auto split: if_splits)

lemma re_sub_from_newline:
  "no_newline r \<Longrightarrow> rmatch r [] = [] \<Longrightarrow> k \<le> length s1 \<Longrightarrow>
   re_sub_from r repl k (s1 @ CHR 0x0A # s2)
     = re_sub_from r repl k s1 @ CHR 0x0A # re_sub_from r repl 0 s2"
proof (induction r repl k s1 rule: re_sub_from.induct)
  case (1 r repl k)
  then have k: "k = 0" by simp
  have "rmatch r (CHR 0x0A # s2) = []"
    using rmatch_newline [OF "1.prems"(1), of "[]" s2] "1.prems"(2) by simp
  with k "1.prems"(2) show ?case by simp
next
  case (2 r repl k c cs)
  then show ?case by simp
next
  case (3 r repl c cs)
  have rm: "rmatch r ((c # cs) @ CHR 0x0A # s2)
            = map (\<lambda>rest. rest @ CHR 0x0A # s2) (rmatch r (c # cs))"
    by (rule rmatch_newline [OF "3.prems"(1)])
  show ?case
  proof (cases "rmatch r (c # cs)")
    case Nil
    with rm 3 show ?thesis by simp
  next
    case (Cons rest others)
    then have le: "length rest \<le> length (c # cs)"
      using rmatch_length [of rest r "c # cs"] by simp
    define n where "n = length (c # cs) - length rest"
    have n': "length ((c # cs) @ CHR 0x0A # s2) - length (rest @ CHR 0x0A # s2) = n"
      using le by (simp add: n_def)
    have nle: "n - 1 \<le> length cs" by (simp add: n_def)
    show ?thesis
    proof (cases "n = 0")
      case True
      have ih: "re_sub_from r repl 0 (cs @ CHR 0x0A # s2)
                = re_sub_from r repl 0 cs @ CHR 0x0A # re_sub_from r repl 0 s2"
        using "3.IH"(2) [OF Cons n_def True] "3.prems" by simp
      show ?thesis using Cons rm n' True ih by (simp add: n_def Let_def)
    next
      case False
      have ih: "re_sub_from r repl (n - 1) (cs @ CHR 0x0A # s2)
                = re_sub_from r repl (n - 1) cs @ CHR 0x0A # re_sub_from r repl 0 s2"
        using "3.IH"(3) [OF Cons n_def False] "3.prems" nle by simp
      show ?thesis using Cons rm n' False ih by (simp add: n_def Let_def)
    qed
  qed
qed

lemma re_sub_no_match:
  "\<not> re_search r s \<Longrightarrow> re_sub_from r repl 0 s = s"
  by (induction s) auto

lemma disclaimer_lower:
  "lower (drop 2 MEDICAL_DISCLAIMER) =
     [CHR 0xE2, CHR 0x9A, CHR 0x95] @ [CHR 0xEF, CHR 0xB8, CHR 0x8F]
     @ '' *please note: i'm an ai hospital assistant and cannot provide medical diagnosis or prescriptions. for medical concerns, please consult with a healthcare professional or visit the hospital.*''"
  by code_simp

lemma patterns_shape:
  "list_all (\<lambda>r. no_newline r \<and> rmatch r [] = [])
     (DIAGNOSIS_PATTERNS @ PRESCRIPTION_PATTERNS @ UNSAFE_CLAIM_PATTERNS)"
  by code_simp

lemma patterns_literals:
  "map (\<lambda>r. lower (first_literal r))
     (DIAGNOSIS_PATTERNS @ PRESCRIPTION_PATTERNS @ UNSAFE_CLAIM_PATTERNS)
   = [''you have '', ''you are suffering from'', ''diagnosed with'', ''this is '',
      ''it sounds like you have'', ''you might have'', ''this could be '',
      ''take '', ''you should take '', ''prescribe'', ''dosage'', ''take '',
      ''medication for '', ''i recommend taking'',
      ''don't worry'', ''nothing to worry about'', ''this is not an emergency'',
      ''you don't need to see a doctor'', ''no need for hospital'',
      ''home remedy will cure'', ''guaranteed to work'']"
  by code_simp

lemma literals_absent:
  "list_all (\<lambda>l. \<not> str_in l
       ([CHR 0xE2, CHR 0x9A, CHR 0x95] @ [CHR 0xEF, CHR 0xB8, CHR 0x8F]
     @ '' *please note: i'm an ai hospital assistant and cannot provide medical diagnosis or prescriptions. for medical concerns, please consult with a healthcare professional or visit the hospital.*''))
    [''you have '', ''you are suffering from'', ''diagnosed with'', ''this is '',
      ''it sounds like you have'', ''you might have'', ''this could be '',
      ''take '', ''you should take '', ''prescribe'', ''dosage'', ''take '',
      ''medication for '', ''i recommend taking'',
      ''don't worry'', ''nothing to worry about'', ''this is not an emergency'',
      ''you don't need to see a doctor'', ''no need for hospital'',
      ''home remedy will cure'', ''guaranteed to work'']"
  by code_simp

lemma patterns_first_literal:
  "list_all (\<lambda>r. \<not> str_in (lower (first_literal r)) (lower (drop 2 MEDICAL_DISCLAIMER)))
     (DIAGNOSIS_PATTERNS @ PRESCRIPTION_PATTERNS @ UNSAFE_CLAIM_PATTERNS)"
proof -
  have "list_all (\<lambda>l. \<not> str_in l (lower (drop 2 MEDICAL_DISCLAIMER)))
          (map (\<lambda>r. lower (first_literal r))
             (DIAGNOSIS_PATTERNS @ PRESCRIPTION_PATTERNS @ UNSAFE_CLAIM_PATTERNS))"
    unfolding patterns_literals disclaimer_lower by (rule literals_absent)
  then show ?thesis by (simp only: list.pred_map comp_def)
qed

lemma rmatch_first_literal:
  "rmatch r s \<noteq> [] \<Longrightarrow> prefix (lower (first_literal r)) (lower s)"
proof (induction r arbitrary: s)
  case (Seq a b)
  then have "rmatch a s \<noteq> []" by auto
  with Seq.IH(1) show ?case by simp
qed (auto simp: lower_def split: if_splits)

lemma re_search_first_literal:
  "re_search r s \<Longrightarrow> str_in (lower (first_literal r)) (lower s)"
proof (induction s)
  case Nil
  then have "prefix (lower (first_literal r)) (lower [])"
    using rmatch_first_literal [of r "[]"] by simp
  then show ?case by (simp add: lower_def)
next
  case (Cons c cs)
  have l: "lower (c # cs) = lower_char c # lower cs" by (simp add: lower_def)
  from Cons.prems consider "rmatch r (c # cs) \<noteq> []" | "re_search r cs" by auto
  then show ?case
  proof cases
    case 1
    then show ?thesis using rmatch_first_literal [of r "c # cs"] unfolding l by simp
  next
    case 2
    then show ?thesis using Cons.IH unfolding l by simp
  qed
qed

lemma patterns_spare_disclaimer:
  "list_all (\<lambda>r. no_newline r \<and> rmatch r [] = [] \<and> \<not> re_search r (drop 2 MEDICAL_DISCLAIMER))
     (DIAGNOSIS_PATTERNS @ PRESCRIPTION_PATTERNS @ UNSAFE_CLAIM_PATTERNS)"
  using patterns_shape patterns_first_literal re_search_first_literal
  unfolding list_all_iff by blast

lemma disclaimer_shape:
  "MEDICAL_DISCLAIMER = CHR 0x0A # CHR 0x0A # drop 2 MEDICAL_DISCLAIMER"
  by (simp add: MEDICAL_DISCLAIMER_def)

lemma re_sub_keeps_disclaimer:
  assumes "no_newline r" and "rmatch r [] = []"
    and "\<not> re_search r (drop 2 MEDICAL_DISCLAIMER)"
  shows "re_sub r repl (p @ MEDICAL_DISCLAIMER) = re_sub r repl p @ MEDICAL_DISCLAIMER"
proof -
  let ?body = "drop 2 MEDICAL_DISCLAIMER"
  have a: "re_sub_from r repl 0 (p @ CHR 0x0A # CHR 0x0A # ?body)
           = re_sub_from r repl 0 p @ CHR 0x0A # re_sub_from r repl 0 (CHR 0x0A # ?body)"
    by (rule re_sub_from_newline [OF assms(1,2)]) simp
  have "re_sub_from r repl 0 ([] @ CHR 0x0A # ?body)
           = re_sub_from r repl 0 [] @ CHR 0x0A # re_sub_from r repl 0 ?body"
    by (rule re_sub_from_newline [OF assms(1,2)]) simp
  then have b: "re_sub_from r repl 0 (CHR 0x0A # ?body) = CHR 0x0A # ?body"
    using assms(2) re_sub_no_match [OF assms(3)] by simp
  have "re_sub r repl (p @ CHR 0x0A # CHR 0x0A # ?body)
        = re_sub r repl p @ CHR 0x0A # CHR 0x0A # ?body"
    unfolding re_sub_def a b ..
  then show ?thesis using disclaimer_shape by simp
qed

lemma apply_patterns_keeps_disclaimer:
  assumes "\<forall>r \<in> set ps. no_newline r \<and> rmatch r [] = []
             \<and> \<not> re_search r (drop 2 MEDICAL_DISCLAIMER)"
  shows "\<exists>p' m'. apply_patterns ps repl response (p @ MEDICAL_DISCLAIMER, m)
                  = (p' @ MEDICAL_DISCLAIMER, m')"
  using assms
proof (induction ps arbitrary: p m)
  case Nil
  then show ?case by simp
next
  case (Cons r ps)
  then have r: "no_newline r" "rmatch r [] = []" "\<not> re_search r (drop 2 MEDICAL_DISCLAIMER)"
    and rest: "\<forall>r \<in> set ps. no_newline r \<and> rmatch r [] = []
             \<and> \<not> re_search r (drop 2 MEDICAL_DISCLAIMER)"
    by simp_all
  show ?case
  proof (cases "re_search r response")
    case True
    then show ?thesis
      using Cons.IH [OF rest, of "re_sub r repl p" True] re_sub_keeps_disclaimer [OF r, of repl p]
      by simp
  next
    case False
    then show ?thesis using Cons.IH [OF rest, of p m] by simp
  qed
qed

lemma filter_patterns_keeps_disclaimer:
  "\<exists>p'. fst (filter_patterns (p @ MEDICAL_DISCLAIMER)) = p' @ MEDICAL_DISCLAIMER"
proof -
  let ?resp = "p @ MEDICAL_DISCLAIMER"
  have all: "\<forall>r \<in> set (DIAGNOSIS_PATTERNS @ PRESCRIPTION_PATTERNS @ UNSAFE_CLAIM_PATTERNS).
      no_newline r \<and> rmatch r [] = [] \<and> \<not> re_search r (drop 2 MEDICAL_DISCLAIMER)"
    using patterns_spare_disclaimer unfolding list_all_iff .
  obtain p1 m1 where 1: "apply_patterns DIAGNOSIS_PATTERNS
      ''[I cannot make diagnoses - please consult a doctor]'' ?resp (?resp, False)
      = (p1 @ MEDICAL_DISCLAIMER, m1)"
    using apply_patterns_keeps_disclaimer [where ps = DIAGNOSIS_PATTERNS and response = ?resp and p = p and m = False] all
    by (metis UnCI set_append)
  obtain p2 m2 where 2: "apply_patterns PRESCRIPTION_PATTERNS
      ''[I cannot prescribe medications - please consult a doctor]'' ?resp
      (p1 @ MEDICAL_DISCLAIMER, m1) = (p2 @ MEDICAL_DISCLAIMER, m2)"
    using apply_patterns_keeps_disclaimer [where ps = PRESCRIPTION_PATTERNS and response = ?resp and p = p1 and m = m1] all
    by (metis UnCI set_append)
  obtain p3 m3 where 3: "apply_patterns UNSAFE_CLAIM_PATTERNS
      ''[Please seek professional medical advice]'' ?resp
      (p2 @ MEDICAL_DISCLAIMER, m2) = (p3 @ MEDICAL_DISCLAIMER, m3)"
    using apply_patterns_keeps_disclaimer [where ps = UNSAFE_CLAIM_PATTERNS and response = ?resp and p = p2 and m = m2] all
    by (metis UnCI set_append)
  show ?thesis unfolding filter_patterns_def 1 2 3 by simp
qed

lemma str_in_suffix: "str_in t (a @ t)"
proof (induction a)
  case Nil
  show ?case by (cases t) simp_all
next
  case (Cons x a)
  then show ?case by simp
qed

text \<open>
  Claim C8 (the disclaimer is appended once). For every text, if the output of
  \<open>check_guardrails\<close> ends with the medical disclaimer, then a second check on that
  output appends nothing: its result is the output of the three pattern loops alone, and
  it still ends with the disclaimer. No pattern matches across a line feed, the disclaimer
  starts with two, and no pattern matches inside the rest of it, so the replacements of
  the second check leave the disclaimer in place and the test for its presence succeeds.
\<close>

theorem check_guardrails_disclaimer_once:
  assumes "suffix MEDICAL_DISCLAIMER (fst (check_guardrails text))"
  shows "fst (check_guardrails (fst (check_guardrails text)))
           = fst (filter_patterns (fst (check_guardrails text)))
         \<and> suffix MEDICAL_DISCLAIMER (fst (check_guardrails (fst (check_guardrails text))))"
proof -
  from assms obtain p where out: "fst (check_guardrails text) = p @ MEDICAL_DISCLAIMER"
    by (auto simp: suffix_def)
  obtain p' where f: "fst (filter_patterns (p @ MEDICAL_DISCLAIMER)) = p' @ MEDICAL_DISCLAIMER"
    using filter_patterns_keeps_disclaimer by blast
  have "str_in MEDICAL_DISCLAIMER (fst (filter_patterns (p @ MEDICAL_DISCLAIMER)))"
    unfolding f by (rule str_in_suffix)
  then have "fst (check_guardrails (p @ MEDICAL_DISCLAIMER))
             = fst (filter_patterns (p @ MEDICAL_DISCLAIMER))"
    by (simp add: check_guardrails_def split_beta)
  then show ?thesis unfolding out using f by (simp add: suffix_def)
qed

lemma apply_patterns_no_match:
  "\<forall>r \<in> set ps. \<not> re_search r response \<Longrightarrow> apply_patterns ps repl response st = st"
  by (induction ps arbitrary: st) (auto simp: split_paired_all)

lemma fever_text_unfiltered:
  "filter_patterns ''I have a fever'' = (''I have a fever'', False)"
proof -
  have lw: "lower ''I have a fever'' = ''i have a fever''" by code_simp
  have "list_all (\<lambda>l. \<not> str_in l ''i have a fever'')
    [''you have '', ''you are suffering from'', ''diagnosed with'', ''this is '',
      ''it sounds like you have'', ''you might have'', ''this could be '',
      ''take '', ''you should take '', ''prescribe'', ''dosage'', ''take '',
      ''medication for '', ''i recommend taking'',
      ''don't worry'', ''nothing to worry about'', ''this is not an emergency'',
      ''you don't need to see a doctor'', ''no need for hospital'',
      ''home remedy will cure'', ''guaranteed to work'']"
    by code_simp
  then have "list_all (\<lambda>l. \<not> str_in l (lower ''I have a fever''))
          (map (\<lambda>r. lower (first_literal r))
             (DIAGNOSIS_PATTERNS @ PRESCRIPTION_PATTERNS @ UNSAFE_CLAIM_PATTERNS))"
    unfolding patterns_literals lw .
  then have "list_all (\<lambda>r. \<not> str_in (lower (first_literal r)) (lower ''I have a fever''))
          (DIAGNOSIS_PATTERNS @ PRESCRIPTION_PATTERNS @ UNSAFE_CLAIM_PATTERNS)"
    by (simp only: list.pred_map comp_def)
  then have no: "\<forall>r \<in> set (DIAGNOSIS_PATTERNS @ PRESCRIPTION_PATTERNS @ UNSAFE_CLAIM_PATTERNS).
      \<not> re_search r ''I have a fever''"
    using re_search_first_literal unfolding list_all_iff by blast
  have 1: "\<forall>r \<in> set DIAGNOSIS_PATTERNS. \<not> re_search r ''I have a fever''"
    and 2: "\<forall>r \<in> set PRESCRIPTION_PATTERNS. \<not> re_search r ''I have a fever''"
    and 3: "\<forall>r \<in> set UNSAFE_CLAIM_PATTERNS. \<not> re_search r ''I have a fever''"
    using no by auto
  show ?thesis
    unfolding filter_patterns_def
    by (simp only: apply_patterns_no_match [OF 1] apply_patterns_no_match [OF 2]
        apply_patterns_no_match [OF 3])
qed

theorem check_guardrails_disclaimer_once_witness:
  "fst (check_guardrails (''I have a fever'' @ MEDICAL_DISCLAIMER))
     = fst (filter_patterns (''I have a fever'' @ MEDICAL_DISCLAIMER))
   \<and> suffix MEDICAL_DISCLAIMER (fst (check_guardrails (''I have a fever'' @ MEDICAL_DISCLAIMER)))"
proof -
  have kw: "any_in symptom_keywords (lower ''I have a fever'')" by code_simp
  have nd: "\<not> str_in MEDICAL_DISCLAIMER ''I have a fever''" by code_simp
  have o: "fst (check_guardrails ''I have a fever'') = ''I have a fever'' @ MEDICAL_DISCLAIMER"
    by (simp add: check_guardrails_def fever_text_unfiltered kw nd del: str_in.simps)
  have h: "suffix MEDICAL_DISCLAIMER (fst (check_guardrails ''I have a fever''))"
    unfolding o by (simp add: suffix_def)
  from check_guardrails_disclaimer_once [OF h] show ?thesis unfolding o .
qed

section \<open>Intent classifier theorems\<close>

lemma check_rules_find:
  "check_emergency_rules_in tbl m =
     map_option (\<lambda>(t, d). \<lparr> intent = EMERGENCY, urgency = CRITICAL, department = Some d,
                  needs_ambulance = True, confidence = 1,
                  entities = Some [(''trigger'', JStr t)] \<rparr>)
       (find (\<lambda>(t, d). str_in t m) tbl)"
  by (induction tbl m rule: check_emergency_rules_in.induct) auto

lemma triggers_lower: "list_all (\<lambda>(t, d). lower t = t) emergency_triggers"
  by (simp add: emergency_triggers_def lower_def lower_char_def)

lemma find_triggers_ci:
  "find (\<lambda>(t, d). contains_ci t message) emergency_triggers
   = find (\<lambda>(t, d). str_in t (lower message)) emergency_triggers"
  by (rule find_cong [OF refl]) (use triggers_lower in \<open>auto simp: list_all_iff contains_ci_def\<close>)

text \<open>
  Claim C1 (deterministic emergency rule). If the message contains, case ignored, a
  phrase of the trigger table, then whatever the library and the text-generation client
  do, \<open>classify_intent\<close> returns the classification with intent emergency, urgency
  critical, ambulance needed and confidence 1, whose department is the specialty the
  table maps the matched trigger to; the matched trigger is the first one, in the order
  of the table, that the message contains.
\<close>

theorem emergency_rule_decides:
  assumes "(trigger, dept) \<in> set emergency_triggers" and "contains_ci trigger message"
  shows "\<exists>t d. find (\<lambda>(t, d). contains_ci t message) emergency_triggers = Some (t, d)
           \<and> (t, d) \<in> set emergency_triggers \<and> contains_ci t message
           \<and> classify_intent lib llm message =
                Inr \<lparr> intent = EMERGENCY, urgency = CRITICAL, department = Some d,
                      needs_ambulance = True, confidence = 1,
                      entities = Some [(''trigger'', JStr t)] \<rparr>"
proof -
  let ?P = "\<lambda>(t, d). contains_ci t message"
  have "find ?P emergency_triggers \<noteq> None"
    using assms by (auto simp: find_None_iff)
  then obtain t d where f: "find ?P emergency_triggers = Some (t, d)" by auto
  then have in_tbl: "(t, d) \<in> set emergency_triggers" and c: "contains_ci t message"
    by (auto simp: find_Some_iff dest: nth_mem)
  have "check_emergency_rules message =
      Some \<lparr> intent = EMERGENCY, urgency = CRITICAL, department = Some d,
             needs_ambulance = True, confidence = 1,
             entities = Some [(''trigger'', JStr t)] \<rparr>"
    using f unfolding check_emergency_rules_def check_rules_find find_triggers_ci [symmetric]
    by simp
  then show ?thesis using f in_tbl c by (simp add: classify_intent_def)
qed

theorem emergency_rule_decides_witness:
  "classify_intent demo_lib Raised ''I have severe CHEST PAIN and a stroke'' =
     Inr \<lparr> intent = EMERGENCY, urgency = CRITICAL, department = Some ''cardiology'',
           needs_ambulance = True, confidence = 1,
           entities = Some [(''trigger'', JStr ''chest pain'')] \<rparr>"
proof -
  have h1: "(''stroke'', ''neurology'') \<in> set emergency_triggers"
    by (simp add: emergency_triggers_def)
  have h2: "contains_ci ''stroke'' ''I have severe CHEST PAIN and a stroke''"
    by code_simp
  have f: "find (\<lambda>(t, d). contains_ci t ''I have severe CHEST PAIN and a stroke'')
             emergency_triggers = Some (''chest pain'', ''cardiology'')"
    by code_simp
  from emergency_rule_decides [OF h1 h2, of demo_lib Raised] show ?thesis
    unfolding f by auto
qed

lemma llm_failure_Inl:
  "llm_failure lib llm \<longleftrightarrow>
     llm = NoResponse \<or> (\<exists>e. llm_classification lib llm message = Inl e)"
  by (auto simp: llm_failure_def llm_classification_def parse_classification_def Let_def
      split: llm_outcome.splits option.splits json.splits sum.splits)

text \<open>
  Claim C5, amended. For every message and every behaviour of the library and of the
  client, \<open>classify_intent\<close> returns a classification and never raises. When no
  emergency trigger matched and the external step fails (no response, an error or a
  timeout, a text that is not JSON, a JSON value that is not an object, an intent or an
  urgency outside its enumeration, a field the schema rejects), the result is the keyword
  fallback. A JSON object with missing keys is no failure: each missing key takes its
  default (intent \<open>general_query\<close>, urgency \<open>non_urgent\<close>, no department, no
  ambulance, confidence 0.8, no entities) and the classification built from the object
  is returned. This last part is stated for the objects that do not pair the intent
  emergency with an urgency other than critical; what is returned for those is left
  open here.
\<close>

theorem classify_intent_never_raises:
  "(\<exists>c. classify_intent lib llm message = Inr c)
   \<and> (check_emergency_rules message = None \<and> llm_failure lib llm \<longrightarrow>
        classify_intent lib llm message = Inr (fallback_classification message))
   \<and> (check_emergency_rules message = None \<and> \<not> llm_failure lib llm
        \<and> llm = Response response_text
        \<and> json_loads lib (strip_code_fence (strip response_text)) = Some (JObj result)
        \<and> (IntentType_of (dict_get result ''intent'' (JStr ''general_query'')) = Inr EMERGENCY
             \<longrightarrow> UrgencyLevel_of (dict_get result ''urgency'' (JStr ''non_urgent'')) = Inr CRITICAL)
        \<longrightarrow>
        classify_intent lib llm message =
          Inr \<lparr> intent = projr (IntentType_of (dict_get result ''intent'' (JStr ''general_query''))),
                urgency = projr (UrgencyLevel_of (dict_get result ''urgency'' (JStr ''non_urgent''))),
                department = the (validate_optional_str lib (dict_get result ''department'' JNull)),
                needs_ambulance = the (validate_bool lib (dict_get result ''needs_ambulance'' (JBool False))),
                confidence = the (validate_float lib (dict_get result ''confidence'' (JNum (8 / 10)))),
                entities = the (validate_optional_dict lib (dict_get result ''entities'' JNull)) \<rparr>)"
proof (intro conjI impI)
  show "\<exists>c. classify_intent lib llm message = Inr c"
    by (simp add: classify_intent_def split: option.splits sum.splits)
next
  assume a: "check_emergency_rules message = None \<and> llm_failure lib llm"
  then consider "llm = NoResponse" | e where "llm_classification lib llm message = Inl e"
    using llm_failure_Inl [of lib llm message] by blast
  then show "classify_intent lib llm message = Inr (fallback_classification message)"
  proof cases
    case 1
    with a show ?thesis by (simp add: classify_intent_def llm_classification_def)
  next
    case 2
    with a show ?thesis by (simp add: classify_intent_def)
  qed
next
  assume a: "check_emergency_rules message = None \<and> \<not> llm_failure lib llm
        \<and> llm = Response response_text
        \<and> json_loads lib (strip_code_fence (strip response_text)) = Some (JObj result)
        \<and> (IntentType_of (dict_get result ''intent'' (JStr ''general_query'')) = Inr EMERGENCY
             \<longrightarrow> UrgencyLevel_of (dict_get result ''urgency'' (JStr ''non_urgent'')) = Inr CRITICAL)"
  then show "classify_intent lib llm message =
          Inr \<lparr> intent = projr (IntentType_of (dict_get result ''intent'' (JStr ''general_query''))),
                urgency = projr (UrgencyLevel_of (dict_get result ''urgency'' (JStr ''non_urgent''))),
                department = the (validate_optional_str lib (dict_get result ''department'' JNull)),
                needs_ambulance = the (validate_bool lib (dict_get result ''needs_ambulance'' (JBool False))),
                confidence = the (validate_float lib (dict_get result ''confidence'' (JNum (8 / 10)))),
                entities = the (validate_optional_dict lib (dict_get result ''entities'' JNull)) \<rparr>"
    by (auto simp: classify_intent_def llm_classification_def parse_classification_def
        llm_failure_def Let_def split: sum.splits)
qed

lemma demo_clean_empty_object: "strip_code_fence (strip ''{}'') = ''{}''"
  by code_simp

lemma demo_clean_response: "strip_code_fence (strip demo_response) = demo_response"
  by code_simp

lemma demo_rules_hello: "check_emergency_rules ''hello'' = None"
  by code_simp

theorem classify_intent_never_raises_witness:
  "classify_intent demo_lib (Response ''not json'') ''hello'' = Inr (fallback_classification ''hello'')
   \<and> classify_intent demo_lib (Response ''{}'') ''hello'' =
       Inr \<lparr> intent = GENERAL_QUERY, urgency = NON_URGENT, department = None,
             needs_ambulance = False, confidence = 8 / 10, entities = None \<rparr>"
proof -
  have ne: "''not json'' \<noteq> demo_response" "''not json'' \<noteq> ''{}''"
    "''{}'' \<noteq> demo_response"
    by (simp_all add: demo_response_def)
  have c1: "strip_code_fence (strip ''not json'') = ''not json''" by code_simp
  have f1: "llm_failure demo_lib (Response ''not json'')"
    using ne by (simp add: llm_failure_def c1 demo_lib_def)
  have f2: "\<not> llm_failure demo_lib (Response ''{}'')"
    using ne by (simp add: llm_failure_def demo_clean_empty_object demo_lib_def dict_get_def
        IntentType_of_def UrgencyLevel_of_def)
  have l2: "json_loads demo_lib (strip_code_fence (strip ''{}'')) = Some (JObj [])"
    using ne by (simp add: demo_clean_empty_object demo_lib_def)
  from classify_intent_never_raises
    [of demo_lib "Response ''not json''" "''hello''" "''not json''" "[]"] f1 demo_rules_hello
  have a: "classify_intent demo_lib (Response ''not json'') ''hello''
      = Inr (fallback_classification ''hello'')"
    by blast
  have g: "IntentType_of (dict_get [] ''intent'' (JStr ''general_query'')) \<noteq> Inr EMERGENCY"
    by (simp add: dict_get_def IntentType_of_def)
  from classify_intent_never_raises
    [of demo_lib "Response ''{}''" "''hello''" "''{}''" "[]"] f2 l2 g demo_rules_hello
  have "classify_intent demo_lib (Response ''{}'') ''hello'' =
          Inr \<lparr> intent = projr (IntentType_of (dict_get [] ''intent'' (JStr ''general_query''))),
                urgency = projr (UrgencyLevel_of (dict_get [] ''urgency'' (JStr ''non_urgent''))),
                department = the (validate_optional_str demo_lib (dict_get [] ''department'' JNull)),
                needs_ambulance = the (validate_bool demo_lib (dict_get [] ''needs_ambulance'' (JBool False))),
                confidence = the (validate_float demo_lib (dict_get [] ''confidence'' (JNum (8 / 10)))),
                entities = the (validate_optional_dict demo_lib (dict_get [] ''entities'' JNull)) \<rparr>"
    by blast
  then have b: "classify_intent demo_lib (Response ''{}'') ''hello'' =
       Inr \<lparr> intent = GENERAL_QUERY, urgency = NON_URGENT, department = None,
             needs_ambulance = False, confidence = 8 / 10, entities = None \<rparr>"
    by (simp add: dict_get_def IntentType_of_def UrgencyLevel_of_def demo_lib_def)
  from a b show ?thesis by simp
qed

text \<open>
  Claim C5 as stated has every listed behaviour, a JSON object with missing keys among
  them, fall through to the keyword fallback. On the message \<open>hello\<close> with the response
  \<open>{}\<close> the fallback would answer greeting with confidence 0.9, and the code answers
  \<open>general_query\<close> with confidence 0.8 from the defaults of the external step.
\<close>

theorem classify_intent_missing_keys_counterexample:
  "check_emergency_rules ''hello'' = None
   \<and> classify_intent demo_lib (Response ''{}'') ''hello'' =
       Inr \<lparr> intent = GENERAL_QUERY, urgency = NON_URGENT, department = None,
             needs_ambulance = False, confidence = 8 / 10, entities = None \<rparr>
   \<and> fallback_classification ''hello'' =
       \<lparr> intent = GREETING, urgency = NON_URGENT, department = None,
         needs_ambulance = False, confidence = 9 / 10, entities = None \<rparr>
   \<and> classify_intent demo_lib (Response ''{}'') ''hello''
       \<noteq> Inr (fallback_classification ''hello'')"
proof -
  have ne: "''{}'' \<noteq> demo_response" by (simp add: demo_response_def)
  have a: "classify_intent demo_lib (Response ''{}'') ''hello'' =
       Inr \<lparr> intent = GENERAL_QUERY, urgency = NON_URGENT, department = None,
             needs_ambulance = False, confidence = 8 / 10, entities = None \<rparr>"
    using ne
    by (simp add: classify_intent_def demo_rules_hello llm_classification_def
        parse_classification_def demo_clean_empty_object demo_lib_def dict_get_def
        IntentType_of_def UrgencyLevel_of_def)
  have b: "fallback_classification ''hello'' =
       \<lparr> intent = GREETING, urgency = NON_URGENT, department = None,
         needs_ambulance = False, confidence = 9 / 10, entities = None \<rparr>"
    by code_simp
  show ?thesis unfolding a b using demo_rules_hello by simp
qed

lemma demo_rules_help: "check_emergency_rules ''I need help'' = None"
  by code_simp

text \<open>
  Claim C6 (emergency implies critical) fails on the external step: the intent and the
  urgency are read from the response independently, the urgency defaulting to
  \<open>non_urgent\<close>. On the message \<open>I need help\<close> with the response
  \<open>{"intent": "emergency"}\<close> the classification returned has intent emergency and
  urgency \<open>non_urgent\<close>. The two local steps keep the invariant: the rule always pairs
  emergency with critical, and the fallback never answers emergency.
\<close>

theorem classify_intent_emergency_not_critical:
  "classify_intent demo_lib (Response demo_response) ''I need help'' =
     Inr \<lparr> intent = EMERGENCY, urgency = NON_URGENT, department = None,
           needs_ambulance = False, confidence = 8 / 10, entities = None \<rparr>"
  by (simp add: classify_intent_def demo_rules_help llm_classification_def
      parse_classification_def demo_clean_response demo_lib_def dict_get_def
      IntentType_of_def UrgencyLevel_of_def)

lemma rule_path_invariant:
  "check_emergency_rules message = Some c \<Longrightarrow> intent c = EMERGENCY \<and> urgency c = CRITICAL"
  unfolding check_emergency_rules_def check_rules_find by auto

lemma fallback_path_invariant: "intent (fallback_classification message) \<noteq> EMERGENCY"
  by (simp add: fallback_classification_def Let_def classification_defaults_def)

section \<open>Emergency orchestrator theorems\<close>

lemma log_action_returns: "log_action audit_write = Inr ()"
  by (simp add: log_action_def try_except_def split: sum.splits)

lemma create_emergency_case_body_raises:
  "db_create (case_payload tr context message) = Inl e \<Longrightarrow>
   create_emergency_case_body db_create audit_write tr context message = Inl e"
  by (simp add: create_emergency_case_body_def then_do_def)

lemma create_emergency_case_body_returns:
  "db_create (case_payload tr context message) = Inr case_id \<Longrightarrow>
   create_emergency_case_body db_create audit_write tr context message = Inr (Some case_id)"
  by (simp add: create_emergency_case_body_def then_do_def log_action_returns)

lemma create_emergency_case_caught:
  "create_emergency_case db_create audit_write tr context message =
     Inr (case db_create (case_payload tr context message) of
            Inl e \<Rightarrow> None
          | Inr case_id \<Rightarrow> Some case_id)"
proof (cases "db_create (case_payload tr context message)")
  case (Inl e)
  then have "create_emergency_case_body db_create audit_write tr context message = Inl e"
    by (rule create_emergency_case_body_raises)
  with Inl show ?thesis by (simp add: create_emergency_case_def try_except_def)
next
  case (Inr case_id)
  then have "create_emergency_case_body db_create audit_write tr context message
             = Inr (Some case_id)"
    by (rule create_emergency_case_body_returns)
  with Inr show ?thesis by (simp add: create_emergency_case_def try_except_def)
qed

text \<open>
  Claim C7 (flags and best-effort case creation). For every message, context, storage
  collaborator, audit outcome, score rendering and clock, \<open>evaluate_and_respond\<close> returns
  an action and raises nothing. The action carries the triage of the message; its
  \<open>alert_staff\<close> flag is true exactly when the severity level is \<open>CRITICAL\<close>; its
  \<open>dispatch_ambulance\<close> flag is the triage's \<open>needs_ambulance\<close>; its case identifier is
  the one the storage collaborator returned when the level is \<open>CRITICAL\<close> or \<open>URGENT\<close>,
  and absent otherwise. When the storage call raises, the exception leaves the body of
  \<open>_create_emergency_case\<close> (lemma \<open>create_emergency_case_body_raises\<close>), is caught by
  its handler, and the action is returned with the case identifier absent.
\<close>

theorem evaluate_and_respond_flags:
  "\<exists>a. evaluate_and_respond db_create audit_write repr_float now_iso message context = Inr a
     \<and> triage a = assess message
     \<and> (alert_staff a \<longleftrightarrow> severity_level (assess message) = ''CRITICAL'')
     \<and> dispatch_ambulance a = triage_result.needs_ambulance (assess message)
     \<and> emergency_case_id a
         = (if severity_level (assess message) = ''CRITICAL''
               \<or> severity_level (assess message) = ''URGENT''
            then (case db_create (case_payload (assess message) context message) of
                    Inl e \<Rightarrow> None
                  | Inr case_id \<Rightarrow> Some case_id)
            else None)
     \<and> ((\<exists>e. db_create (case_payload (assess message) context message) = Inl e) \<longrightarrow>
          emergency_case_id a = None)"
proof -
  let ?tr = "assess message"
  let ?crit = "severity_level ?tr = ''CRITICAL''"
  let ?urg = "severity_level ?tr = ''URGENT''"
  define emergency_id where
    "emergency_id = (if ?crit \<or> ?urg
        then (case db_create (case_payload ?tr context message) of
                Inl e \<Rightarrow> None
              | Inr case_id \<Rightarrow> Some case_id)
        else None)"
  have step: "(if ?crit \<or> ?urg
               then create_emergency_case db_create audit_write ?tr context message
               else Inr None) = Inr emergency_id"
    by (simp add: emergency_id_def create_emergency_case_caught)
  define a where
    "a = \<lparr> is_emergency = ?crit,
           triage = ?tr,
           dispatch_ambulance = triage_result.needs_ambulance ?tr,
           alert_staff = ?crit,
           escalation_message =
             (if ?crit
              then build_escalation_message repr_float now_iso ?tr context emergency_id
              else []),
           patient_guidance = build_patient_guidance ?tr,
           emergency_case_id = emergency_id \<rparr>"
  have ret: "evaluate_and_respond db_create audit_write repr_float now_iso message context = Inr a"
    unfolding evaluate_and_respond_def Let_def step by (simp add: then_do_def a_def)
  have fail: "(\<exists>e. db_create (case_payload ?tr context message) = Inl e) \<longrightarrow>
              emergency_case_id a = None"
    by (auto simp: a_def emergency_id_def)
  show ?thesis
    using ret fail by (intro exI [of _ a]) (simp add: a_def emergency_id_def)
qed

theorem evaluate_and_respond_flags_witness:
  "map_sum (\<lambda>e. e) (\<lambda>a. (alert_staff a, dispatch_ambulance a, emergency_case_id a))
     (evaluate_and_respond (\<lambda>d. Inl ''connection lost'') (Inl ''connection lost'')
        (\<lambda>x. ''1.0'') ''2025-01-01T00:00:00'' ''I have severe chest pain''
        \<lparr> session_id = ''s1'', patient_name = None, patient_phone = None, patient_id = None \<rparr>)
   = Inr (True, True, None)"
proof -
  have l: "severity_level (assess ''I have severe chest pain'') = ''CRITICAL''" by code_simp
  have n: "triage_result.needs_ambulance (assess ''I have severe chest pain'')" by code_simp
  from evaluate_and_respond_flags [of "\<lambda>d. Inl ''connection lost''" "Inl ''connection lost''"
      "\<lambda>x. ''1.0''" "''2025-01-01T00:00:00''" "''I have severe chest pain''"
      "\<lparr> session_id = ''s1'', patient_name = None, patient_phone = None, patient_id = None \<rparr>"]
  obtain a where a: "evaluate_and_respond (\<lambda>d. Inl ''connection lost'') (Inl ''connection lost'')
        (\<lambda>x. ''1.0'') ''2025-01-01T00:00:00'' ''I have severe chest pain''
        \<lparr> session_id = ''s1'', patient_name = None, patient_phone = None, patient_id = None \<rparr>
        = Inr a"
    and f: "alert_staff a \<longleftrightarrow> severity_level (assess ''I have severe chest pain'') = ''CRITICAL''"
         "dispatch_ambulance a = triage_result.needs_ambulance (assess ''I have severe chest pain'')"
         "emergency_case_id a = None"
    by auto
  show ?thesis unfolding a using f l n by simp
qed

section \<open>Slot lock theorems\<close>

lemma acquire_lock_live:
  assumes "locks (get_lock_key isofmt d s) = Some e" and "now \<le> e"
  shows "acquire_lock isofmt now d s locks = (False, locks)"
  using assms by (simp add: acquire_lock_def Let_def)

lemma acquire_lock_other:
  assumes "get_lock_key isofmt d s \<noteq> key"
  shows "snd (acquire_lock isofmt now d s locks) key = locks key"
  using assms by (auto simp: acquire_lock_def Let_def split: option.splits)

lemma lock_step_during:
  assumes "locks key = Some e" and "during_lock isofmt key e x"
  shows "snd (lock_step isofmt x locks) key = Some e
         \<and> (op_key isofmt x = key \<longrightarrow> fst (lock_step isofmt x locks) = Some False)"
proof (cases x)
  case (Acquire now d s)
  show ?thesis
  proof (cases "get_lock_key isofmt d s = key")
    case True
    with assms Acquire have "acquire_lock isofmt now d s locks = (False, locks)"
      by (auto intro: acquire_lock_live)
    with assms Acquire True show ?thesis by simp
  next
    case False
    with assms Acquire acquire_lock_other [OF False, of now locks] show ?thesis
      by (simp add: split_beta)
  qed
next
  case (Release d s)
  with assms show ?thesis by (simp add: release_lock_def)
qed

lemma run_ops_during:
  assumes "locks key = Some e" and "\<forall>x \<in> set ops. during_lock isofmt key e x"
  shows "snd (run_ops isofmt ops locks) key = Some e
         \<and> (\<forall>i < length ops. op_key isofmt (ops ! i) = key
               \<longrightarrow> fst (run_ops isofmt ops locks) ! i = Some False)"
  using assms
proof (induction ops arbitrary: locks)
  case Nil
  then show ?case by simp
next
  case (Cons x xs)
  have st: "snd (lock_step isofmt x locks) key = Some e"
    and r: "op_key isofmt x = key \<longrightarrow> fst (lock_step isofmt x locks) = Some False"
    using lock_step_during [of locks key e isofmt x] Cons.prems by auto
  have ih: "snd (run_ops isofmt xs (snd (lock_step isofmt x locks))) key = Some e
         \<and> (\<forall>i < length xs. op_key isofmt (xs ! i) = key
               \<longrightarrow> fst (run_ops isofmt xs (snd (lock_step isofmt x locks))) ! i = Some False)"
    using Cons.IH [of "snd (lock_step isofmt x locks)"] st Cons.prems by simp
  show ?case
  proof (intro conjI allI impI)
    show "snd (run_ops isofmt (x # xs) locks) key = Some e"
      using ih by (simp add: split_beta)
  next
    fix i
    assume "i < length (x # xs)" and "op_key isofmt ((x # xs) ! i) = key"
    then show "fst (run_ops isofmt (x # xs) locks) ! i = Some False"
      using ih r by (cases i) (simp_all add: split_beta)
  qed
qed

lemma acquire_lock_success:
  assumes "acquire_lock isofmt t0 d s locks0 = (True, locks1)"
  shows "locks1 (get_lock_key isofmt d s) = Some (t0 + timedelta_seconds LOCK_DURATION_SECONDS)"
  using assms by (auto simp: acquire_lock_def Let_def split: option.splits if_splits)

text \<open>
  Claim C2 (mutual exclusion). Let an acquire for the key of \<open>(d, s)\<close> succeed at clock
  reading \<open>t0\<close>, and let any sequence of calls follow in which the key is not released
  and every acquire for the key reads a clock that is not past the lock's expiry
  \<open>t0 + 120 s\<close> (calls for other keys are unrestricted). Then every one of those
  acquires for the key returns \<open>False\<close>, and the table still holds, for the key, the
  single entry the successful acquire installed. The table is a dictionary, so a key has
  at most one entry at any instant.
\<close>

theorem slot_lock_mutual_exclusion:
  assumes "acquire_lock isofmt t0 d s locks0 = (True, locks1)"
    and "\<forall>x \<in> set ops. during_lock isofmt (get_lock_key isofmt d s)
            (t0 + timedelta_seconds LOCK_DURATION_SECONDS) x"
  shows "(\<forall>i < length ops. op_key isofmt (ops ! i) = get_lock_key isofmt d s
            \<longrightarrow> fst (run_ops isofmt ops locks1) ! i = Some False)
         \<and> snd (run_ops isofmt ops locks1) (get_lock_key isofmt d s)
             = Some (t0 + timedelta_seconds LOCK_DURATION_SECONDS)"
  using run_ops_during [where locks = locks1 and key = "get_lock_key isofmt d s"
      and e = "t0 + timedelta_seconds LOCK_DURATION_SECONDS" and isofmt = isofmt and ops = ops]
    acquire_lock_success [OF assms(1)] assms(2)
  by blast

theorem slot_lock_mutual_exclusion_witness:
  "fst (run_ops (\<lambda>x. x)
          [Acquire 5 ''doc1'' ''2025-01-01T10:00:00'',
           Acquire 7 ''doc2'' ''2025-01-01T10:00:00'',
           Release ''doc2'' ''2025-01-01T10:00:00'',
           Acquire 120000000 ''doc1'' ''2025-01-01T10:00:00'']
          [''doc1:2025-01-01T10:00:00'' \<mapsto> 120000000]) ! 3 = Some False
   \<and> snd (run_ops (\<lambda>x. x)
          [Acquire 5 ''doc1'' ''2025-01-01T10:00:00'',
           Acquire 7 ''doc2'' ''2025-01-01T10:00:00'',
           Release ''doc2'' ''2025-01-01T10:00:00'',
           Acquire 120000000 ''doc1'' ''2025-01-01T10:00:00'']
          [''doc1:2025-01-01T10:00:00'' \<mapsto> 120000000]) ''doc1:2025-01-01T10:00:00''
       = Some 120000000"
proof -
  let ?ops = "[Acquire 5 ''doc1'' ''2025-01-01T10:00:00'',
               Acquire 7 ''doc2'' ''2025-01-01T10:00:00'',
               Release ''doc2'' ''2025-01-01T10:00:00'',
               Acquire 120000000 ''doc1'' ''2025-01-01T10:00:00'']"
  have h1: "acquire_lock (\<lambda>x. x) 0 ''doc1'' ''2025-01-01T10:00:00'' Map.empty
            = (True, [''doc1:2025-01-01T10:00:00'' \<mapsto> 120000000])"
    by (simp add: acquire_lock_def get_lock_key_def timedelta_seconds_def
        LOCK_DURATION_SECONDS_def)
  have h2: "\<forall>x \<in> set ?ops. during_lock (\<lambda>x. x)
              (get_lock_key (\<lambda>x. x) ''doc1'' ''2025-01-01T10:00:00'')
              (0 + timedelta_seconds LOCK_DURATION_SECONDS) x"
    by (simp add: get_lock_key_def timedelta_seconds_def LOCK_DURATION_SECONDS_def)
  have k: "get_lock_key (\<lambda>x. x) ''doc1'' ''2025-01-01T10:00:00'' = ''doc1:2025-01-01T10:00:00''"
    by (simp add: get_lock_key_def)
  have e: "0 + timedelta_seconds LOCK_DURATION_SECONDS = 120000000"
    by (simp add: timedelta_seconds_def LOCK_DURATION_SECONDS_def)
  note th = slot_lock_mutual_exclusion [OF h1 h2]
  from th have a: "op_key (\<lambda>x. x) (?ops ! 3) = get_lock_key (\<lambda>x. x) ''doc1'' ''2025-01-01T10:00:00''
      \<longrightarrow> fst (run_ops (\<lambda>x. x) ?ops [''doc1:2025-01-01T10:00:00'' \<mapsto> 120000000]) ! 3 = Some False"
    by simp
  have b: "op_key (\<lambda>x. x) (?ops ! 3) = get_lock_key (\<lambda>x. x) ''doc1'' ''2025-01-01T10:00:00''"
    by simp
  from a b th show ?thesis unfolding k e by blast
qed

text \<open>
  Claim C9 (expiry). When the table holds, for the key of \<open>(d, s)\<close>, an expiry that lies
  strictly before the clock reading of the call, acquire returns \<open>True\<close> with no release
  before it, and the table afterwards is the old one with the entry of the key replaced
  by the expiry \<open>now + 120 s\<close> (120 000 000 microseconds).
\<close>

theorem acquire_lock_expired:
  assumes "locks (get_lock_key isofmt d s) = Some e" and "e < now"
  shows "acquire_lock isofmt now d s locks
           = (True, locks(get_lock_key isofmt d s \<mapsto> now + 120 * 1000000))"
  using assms
  by (simp add: acquire_lock_def Let_def timedelta_seconds_def LOCK_DURATION_SECONDS_def)

theorem acquire_lock_expired_witness:
  "acquire_lock (\<lambda>x. x) 130000000 ''doc1'' ''2025-01-01T10:00:00''
       [''doc1:2025-01-01T10:00:00'' \<mapsto> 120000000]
     = (True, [''doc1:2025-01-01T10:00:00'' \<mapsto> 250000000])"
proof -
  have h1: "[''doc1:2025-01-01T10:00:00'' \<mapsto> (120000000 :: int)]
              (get_lock_key (\<lambda>x. x) ''doc1'' ''2025-01-01T10:00:00'') = Some 120000000"
    by (simp add: get_lock_key_def)
  have h2: "(120000000 :: int) < 130000000" by simp
  from acquire_lock_expired [where locks = "[''doc1:2025-01-01T10:00:00'' \<mapsto> 120000000]"
      and isofmt = "\<lambda>x. x" and d = "''doc1''" and s = "''2025-01-01T10:00:00''"
      and e = 120000000 and now = 130000000, OF h1 h2]
  show ?thesis by (simp add: get_lock_key_def)
qed

text \<open>
  Claim C10 (frame of a failed acquire). Whenever acquire returns \<open>False\<close>, the table it
  returns is the table it was given: no entry of any key is inserted, removed or changed.
\<close>

theorem acquire_lock_failed_frame:
  assumes "fst (acquire_lock isofmt now d s locks) = False"
  shows "snd (acquire_lock isofmt now d s locks) = locks"
  using assms by (auto simp: acquire_lock_def Let_def split: option.splits if_splits)

theorem acquire_lock_failed_frame_witness:
  "snd (acquire_lock (\<lambda>x. x) 50 ''doc1'' ''2025-01-01T10:00:00''
         [''doc1:2025-01-01T10:00:00'' \<mapsto> 120000000])
     = [''doc1:2025-01-01T10:00:00'' \<mapsto> 120000000]"
proof -
  have h: "fst (acquire_lock (\<lambda>x. x) 50 ''doc1'' ''2025-01-01T10:00:00''
         [''doc1:2025-01-01T10:00:00'' \<mapsto> 120000000]) = False"
    by (simp add: acquire_lock_def get_lock_key_def)
  show ?thesis by (rule acquire_lock_failed_frame [OF h])
qed

end
